theory Spec2Isabelle
  imports Main "HOL-Library.Log_Nat"
begin

section \<open>JavaScript strings\<close>

text \<open>
  The analyzer (\<^verbatim>\<open>src/lib/analyzer.ts\<close>, class \<^verbatim>\<open>SimpleATSAnalyzer\<close>) works on
  JavaScript strings, which are sequences of UTF-16 code units.  A string is modelled as the
  list of its code units (integers); Cyrillic literals of the source are written with their code units in
  hexadecimal (\<open>0x43E\<close> is CYRILLIC SMALL LETTER O),
    ASCII literals through \<open>ascii\<close>.
\<close>

type_synonym jsstring = "int list"

definition ascii :: "string \<Rightarrow> jsstring" where
  "ascii s = map of_char s"

text \<open>A character class is a list of inclusive code-unit ranges.\<close>

fun in_cls :: "(int \<times> int) list \<Rightarrow> int \<Rightarrow> bool" where
  "in_cls [] c = False"
| "in_cls ((lo, hi) # rs) c = ((lo \<le> c \<and> c \<le> hi) \<or> in_cls rs c)"

text \<open>
  ECMAScript's \<^verbatim>\<open>\s\<close> and the characters removed by \<^verbatim>\<open>String.prototype.trim\<close> are the same
  set, WhiteSpace and LineTerminator: TAB, LF, VT, FF, CR, SP, NBSP, U+1680, U+2000..U+200A,
  U+2028, U+2029, U+202F, U+205F, U+3000 and U+FEFF.
\<close>

definition ws_cls :: "(int \<times> int) list" where
  "ws_cls = [(9, 13), (32, 32), (0xA0, 0xA0), (0x1680, 0x1680), (0x2000, 0x200A),
     (0x2028, 0x2029), (0x202F, 0x202F), (0x205F, 0x205F), (0x3000, 0x3000), (0xFEFF, 0xFEFF)]"

definition str_trim :: "jsstring \<Rightarrow> jsstring" where
  "str_trim s = rev (dropWhile (in_cls ws_cls) (rev (dropWhile (in_cls ws_cls) s)))"

fun starts_with :: "jsstring \<Rightarrow> jsstring \<Rightarrow> bool" where
  "starts_with s [] = True"
| "starts_with [] (c # cs) = False"
| "starts_with (x # xs) (c # cs) = (x = c \<and> starts_with xs cs)"

text \<open>\<^verbatim>\<open>s.includes(sub)\<close>: \<open>sub\<close> occurs in \<open>s\<close> as a contiguous run of code units.\<close>

fun str_includes :: "jsstring \<Rightarrow> jsstring \<Rightarrow> bool" where
  "str_includes [] sub = (sub = [])"
| "str_includes (x # xs) sub = (starts_with (x # xs) sub \<or> str_includes xs sub)"

text \<open>
  \<^verbatim>\<open>s.split(sep)\<close> for a separator of one code unit; the empty string splits into one empty
  piece.  \<^verbatim>\<open>s.split(sep, limit)\<close> keeps the first \<open>limit\<close> pieces of that array.
\<close>

fun str_split :: "int \<Rightarrow> jsstring \<Rightarrow> jsstring list" where
  "str_split sep [] = [[]]"
| "str_split sep (c # cs) =
     (if c = sep then [] # str_split sep cs
      else (case str_split sep cs of [] \<Rightarrow> [[c]] | p # ps \<Rightarrow> (c # p) # ps))"

definition str_split_limit :: "int \<Rightarrow> nat \<Rightarrow> jsstring \<Rightarrow> jsstring list" where
  "str_split_limit sep limit s = take limit (str_split sep s)"

fun str_join :: "jsstring \<Rightarrow> jsstring list \<Rightarrow> jsstring" where
  "str_join sep [] = []"
| "str_join sep [x] = x"
| "str_join sep (x # y # ys) = x @ sep @ str_join sep (y # ys)"

text \<open>A non-negative integer converted to a string, as a template literal does.\<close>

fun show_nat :: "nat \<Rightarrow> jsstring" where
  "show_nat n = (if n < 10 then [48 + int n] else show_nat (n div 10) @ [48 + int (n mod 10)])"

declare show_nat.simps [simp del]

text \<open>
  \<^verbatim>\<open>Array.from(new Set(xs))\<close>: duplicates removed, every element at its first occurrence.
\<close>

fun uniq :: "'a list \<Rightarrow> 'a list" where
  "uniq [] = []"
| "uniq (x # xs) = x # uniq (filter (\<lambda>y. y \<noteq> x) xs)"

text \<open>
  A value is truthy when it is neither \<^verbatim>\<open>undefined\<close> nor the empty string.
\<close>

fun truthy :: "jsstring option \<Rightarrow> bool" where
  "truthy None = False"
| "truthy (Some s) = (s \<noteq> [])"

text \<open>
  \<^verbatim>\<open>String.prototype.toLowerCase\<close> follows the Unicode case tables, which are not part of the
  repository: every function that calls it takes it as the parameter \<open>lc\<close>, and the theorems
  below hold for every \<open>lc\<close>.  For concrete inputs, \<open>toLowerCase_ru\<close> is the mapping on ASCII
  and on the Cyrillic block U+0400..U+045F (A..Z to a..z, U+0410..U+042F to U+0430..U+044F,
  U+0400..U+040F to U+0450..U+045F); it agrees with \<^verbatim>\<open>toLowerCase\<close> on every string made of
  such code units.
\<close>

definition toLowerCase_unit :: "int \<Rightarrow> int" where
  "toLowerCase_unit c =
     (if 65 \<le> c \<and> c \<le> 90 then c + 32
      else if 0x410 \<le> c \<and> c \<le> 0x42F then c + 32
      else if 0x400 \<le> c \<and> c \<le> 0x40F then c + 80
      else c)"

definition toLowerCase_ru :: "jsstring \<Rightarrow> jsstring" where
  "toLowerCase_ru s = map toLowerCase_unit s"


section \<open>Regular expressions\<close>

text \<open>
  The fragment of ECMAScript regular expressions that the analyzer uses: character classes,
  sequence, alternation, greedy repetition, one capturing group, and the assertions
  \<^verbatim>\<open>^\<close>, \<^verbatim>\<open>$\<close> (without the multiline flag) and \<^verbatim>\<open>\b\<close>.
\<close>

datatype rx = Eps | Cls "(int \<times> int) list" | Seq rx rx | Alt rx rx | Star rx | Grp rx
  | Bol | Eol | WordB

text \<open>
  A matcher state is the code unit before the current position (\<open>None\<close> at the start of the
  input), the rest of the input, and the text captured by the group so far.  \<open>rx_m r st\<close>
  lists the states in which a match of \<open>r\<close> from \<open>st\<close> can end, in the order in which a
  backtracking matcher tries them: the head of the list is the match that ECMAScript reports.
  A greedy star tries one more iteration before it tries to stop, and skips an iteration that
  consumes nothing.
\<close>

type_synonym mstate = "int option \<times> jsstring \<times> jsstring option"

definition rest_len :: "mstate \<Rightarrow> nat" where
  "rest_len st = length (fst (snd st))"

function star_iter :: "(mstate \<Rightarrow> mstate list) \<Rightarrow> mstate \<Rightarrow> mstate list" where
  "star_iter f st =
     concat (map (star_iter f) (filter (\<lambda>st'. rest_len st' < rest_len st) (f st))) @ [st]"
  by pat_completeness auto
termination
  by (relation "measure (\<lambda>(f, st). rest_len st)") auto

declare star_iter.simps [simp del]

definition word_cls :: "(int \<times> int) list" where
  "word_cls = [(65, 90), (97, 122), (48, 57), (95, 95)]"

fun is_word :: "int option \<Rightarrow> bool" where
  "is_word None = False"
| "is_word (Some c) = in_cls word_cls c"

fun next_unit :: "jsstring \<Rightarrow> int option" where
  "next_unit [] = None"
| "next_unit (c # cs) = Some c"

primrec rx_m :: "rx \<Rightarrow> mstate \<Rightarrow> mstate list" where
  "rx_m Eps = (\<lambda>st. [st])"
| "rx_m (Cls rs) = (\<lambda>(p, s, g).
     case s of [] \<Rightarrow> [] | c # cs \<Rightarrow> if in_cls rs c then [(Some c, cs, g)] else [])"
| "rx_m (Seq a b) = (\<lambda>st. concat (map (rx_m b) (rx_m a st)))"
| "rx_m (Alt a b) = (\<lambda>st. rx_m a st @ rx_m b st)"
| "rx_m (Star a) = star_iter (rx_m a)"
| "rx_m (Grp a) = (\<lambda>(p, s, g).
     map (\<lambda>(p', s', g'). (p', s', Some (take (length s - length s') s))) (rx_m a (p, s, g)))"
| "rx_m Bol = (\<lambda>(p, s, g). if p = None then [(p, s, g)] else [])"
| "rx_m Eol = (\<lambda>(p, s, g). if s = [] then [(p, s, g)] else [])"
| "rx_m WordB = (\<lambda>(p, s, g). if is_word p \<noteq> is_word (next_unit s) then [(p, s, g)] else [])"

text \<open>Derived forms: a literal code unit, \<^verbatim>\<open>r{n}\<close>, \<^verbatim>\<open>r{n,}\<close>, \<^verbatim>\<open>r+\<close>, \<^verbatim>\<open>r{n,n+k}\<close>, a sequence.\<close>

definition Chr :: "int \<Rightarrow> rx" where
  "Chr c = Cls [(c, c)]"

primrec rx_times :: "nat \<Rightarrow> rx \<Rightarrow> rx" where
  "rx_times 0 r = Eps"
| "rx_times (Suc n) r = Seq r (rx_times n r)"

primrec rx_upto :: "nat \<Rightarrow> rx \<Rightarrow> rx" where
  "rx_upto 0 r = Eps"
| "rx_upto (Suc n) r = Alt (Seq r (rx_upto n r)) Eps"

definition rx_atleast :: "nat \<Rightarrow> rx \<Rightarrow> rx" where
  "rx_atleast n r = Seq (rx_times n r) (Star r)"

definition Plus :: "rx \<Rightarrow> rx" where
  "Plus r = rx_atleast 1 r"

definition rx_range :: "nat \<Rightarrow> nat \<Rightarrow> rx \<Rightarrow> rx" where
  "rx_range n k r = Seq (rx_times n r) (rx_upto k r)"

primrec rx_seq :: "rx list \<Rightarrow> rx" where
  "rx_seq [] = Eps"
| "rx_seq (r # rs) = Seq r (rx_seq rs)"

text \<open>
  \<^verbatim>\<open>s.match(re)\<close> for a regular expression without the global flag: the match at the
  leftmost position where one exists, as the matched text and the capture of the group.
\<close>

fun rx_search :: "rx \<Rightarrow> int option \<Rightarrow> jsstring \<Rightarrow> (jsstring \<times> jsstring option) option" where
  "rx_search r p [] =
     (case rx_m r (p, [], None) of [] \<Rightarrow> None | (p', s', g) # _ \<Rightarrow> Some ([], g))"
| "rx_search r p (c # cs) =
     (case rx_m r (p, c # cs, None) of
        [] \<Rightarrow> rx_search r (Some c) cs
      | (p', s', g) # _ \<Rightarrow> Some (take (length (c # cs) - length s') (c # cs), g))"

definition str_match :: "rx \<Rightarrow> jsstring \<Rightarrow> (jsstring \<times> jsstring option) option" where
  "str_match r s = rx_search r None s"

text \<open>
  \<^verbatim>\<open>s.match(re)\<close> with the global flag: all matches from left to right, each search starting
  where the last match ended (one code unit later after an empty match); no match gives the
  empty list, which is what \<^verbatim>\<open>s.match(re) || []\<close> is then.
\<close>

function rx_match_all :: "rx \<Rightarrow> int option \<Rightarrow> jsstring \<Rightarrow> jsstring list" where
  "rx_match_all r p s =
     (case rx_m r (p, s, None) of
        [] \<Rightarrow> (case s of [] \<Rightarrow> [] | c # cs \<Rightarrow> rx_match_all r (Some c) cs)
      | (p', s', g) # _ \<Rightarrow>
          if length s' < length s
          then take (length s - length s') s # rx_match_all r p' s'
          else (case s of [] \<Rightarrow> [[]] | c # cs \<Rightarrow> [] # rx_match_all r (Some c) cs))"
  by pat_completeness auto
termination
  by (relation "measure (\<lambda>(r, p, s). length s)") auto

declare rx_match_all.simps [simp del]

text \<open>\<^verbatim>\<open>s.replace(re, rep)\<close> with the global flag and a replacement without patterns.\<close>

function rx_replace_all :: "rx \<Rightarrow> jsstring \<Rightarrow> int option \<Rightarrow> jsstring \<Rightarrow> jsstring" where
  "rx_replace_all r rep p s =
     (case rx_m r (p, s, None) of
        [] \<Rightarrow> (case s of [] \<Rightarrow> [] | c # cs \<Rightarrow> c # rx_replace_all r rep (Some c) cs)
      | (p', s', g) # _ \<Rightarrow>
          if length s' < length s
          then rep @ rx_replace_all r rep p' s'
          else (case s of [] \<Rightarrow> rep | c # cs \<Rightarrow> rep @ c # rx_replace_all r rep (Some c) cs))"
  by pat_completeness auto
termination
  by (relation "measure (\<lambda>(r, rep, p, s). length s)") auto

declare rx_replace_all.simps [simp del]


section \<open>JavaScript numbers\<close>

text \<open>
  A JavaScript number is an IEEE 754 binary64 value.  The finite values are rationals, and
  every arithmetic operation returns the exact result rounded to the nearest value with a
  53-bit significand, ties to the even significand.  \<open>fl\<close> is that rounding for the normal
  range (the analyzer's values lie between 0 and 131, and its smallest non-zero value is
  1/3, so neither overflow nor subnormal values occur).  The divisors of the analyzer are
  never zero: 3, and the length of a list that was tested to be non-empty.
  \<^verbatim>\<open>Math.round\<close> returns the nearest integer, a tie going up.
\<close>

definition round_even :: "rat \<Rightarrow> int" where
  "round_even y =
     (let f = \<lfloor>y\<rfloor>; d = y - of_int f in
      if d < 1 / 2 then f else if 1 / 2 < d then f + 1 else if even f then f else f + 1)"

definition ilog2 :: "rat \<Rightarrow> int" where
  "ilog2 x =
     (let (p, q) = quotient_of x; e = bitlen p - bitlen q in
      if 2 powi e \<le> x then e else e - 1)"

definition fl :: "rat \<Rightarrow> rat" where
  "fl x =
     (if x = 0 then 0
      else let u = 2 powi (ilog2 \<bar>x\<bar> - 52) in sgn x * of_int (round_even (\<bar>x\<bar> / u)) * u)"

definition fadd :: "rat \<Rightarrow> rat \<Rightarrow> rat" where
  "fadd x y = fl (x + y)"

definition fmul :: "rat \<Rightarrow> rat \<Rightarrow> rat" where
  "fmul x y = fl (x * y)"

definition fdiv :: "rat \<Rightarrow> rat \<Rightarrow> rat" where
  "fdiv x y = fl (x / y)"

definition Math_round :: "rat \<Rightarrow> int" where
  "Math_round x = \<lfloor>x + 1 / 2\<rfloor>"

text \<open>
  Rounding a quotient of integers to the nearest integer, ties to even, with integer
  division: the form in which \<open>fl\<close> is evaluated on concrete numbers.
\<close>

definition round_even_div :: "int \<Rightarrow> int \<Rightarrow> int" where
  "round_even_div n d =
     (let f = n div d; r = n mod d in
      if 2 * r < d then f else if d < 2 * r then f + 1 else if even f then f else f + 1)"

text \<open>The largest factor by which \<open>fl\<close> can enlarge a positive number.\<close>

definition fl_eps :: rat where
  "fl_eps = 1 + 1 / 2 ^ 53"


section \<open>The vocabulary tables of the analyzer\<close>

text \<open>
  \<open>standardSections\<close> keeps the order of the object literal, which is the order of
  \<^verbatim>\<open>Object.entries\<close> and \<^verbatim>\<open>Object.values\<close>.  In transliteration the key words are:
  experience: opyt raboty, opyt, kar'era, rabota, trudovaya deyatel'nost',
  professional'nyi opyt; education: obrazovanie, ucheba, obuchenie, kvalifikatsiya;
  skills: navyki, klyuchevye navyki, tekhnologii, kompetentsii, umeniya, professional'nye
  navyki; contacts: kontakty, kontaktnaya informatsiya, svyaz', kontaktnye dannye;
  about: o sebe, obo mne, lichnaya informatsiya, kratkaya informatsiya, rezyume.
\<close>

definition experience_keywords :: "jsstring list" where
  "experience_keywords =
    [[0x43E, 0x43F, 0x44B, 0x442, 32, 0x440, 0x430, 0x431, 0x43E, 0x442, 0x44B],
     [0x43E, 0x43F, 0x44B, 0x442],
     [0x43A, 0x430, 0x440, 0x44C, 0x435, 0x440, 0x430],
     [0x440, 0x430, 0x431, 0x43E, 0x442, 0x430],
     [0x442, 0x440, 0x443, 0x434, 0x43E, 0x432, 0x430, 0x44F, 32, 0x434, 0x435, 0x44F, 0x442,
       0x435, 0x43B, 0x44C, 0x43D, 0x43E, 0x441, 0x442, 0x44C],
     [0x43F, 0x440, 0x43E, 0x444, 0x435, 0x441, 0x441, 0x438, 0x43E, 0x43D, 0x430, 0x43B, 0x44C,
       0x43D, 0x44B, 0x439, 32, 0x43E, 0x43F, 0x44B, 0x442]]"

definition education_keywords :: "jsstring list" where
  "education_keywords =
    [[0x43E, 0x431, 0x440, 0x430, 0x437, 0x43E, 0x432, 0x430, 0x43D, 0x438, 0x435],
     [0x443, 0x447, 0x435, 0x431, 0x430],
     [0x43E, 0x431, 0x443, 0x447, 0x435, 0x43D, 0x438, 0x435],
     [0x43A, 0x432, 0x430, 0x43B, 0x438, 0x444, 0x438, 0x43A, 0x430, 0x446, 0x438, 0x44F]]"

definition skills_keywords :: "jsstring list" where
  "skills_keywords =
    [[0x43D, 0x430, 0x432, 0x44B, 0x43A, 0x438],
     [0x43A, 0x43B, 0x44E, 0x447, 0x435, 0x432, 0x44B, 0x435, 32, 0x43D, 0x430, 0x432, 0x44B,
       0x43A, 0x438],
     [0x442, 0x435, 0x445, 0x43D, 0x43E, 0x43B, 0x43E, 0x433, 0x438, 0x438],
     [0x43A, 0x43E, 0x43C, 0x43F, 0x435, 0x442, 0x435, 0x43D, 0x446, 0x438, 0x438],
     [0x443, 0x43C, 0x435, 0x43D, 0x438, 0x44F],
     [0x43F, 0x440, 0x43E, 0x444, 0x435, 0x441, 0x441, 0x438, 0x43E, 0x43D, 0x430, 0x43B, 0x44C,
       0x43D, 0x44B, 0x435, 32, 0x43D, 0x430, 0x432, 0x44B, 0x43A, 0x438]]"

definition contacts_keywords :: "jsstring list" where
  "contacts_keywords =
    [[0x43A, 0x43E, 0x43D, 0x442, 0x430, 0x43A, 0x442, 0x44B],
     [0x43A, 0x43E, 0x43D, 0x442, 0x430, 0x43A, 0x442, 0x43D, 0x430, 0x44F, 32, 0x438, 0x43D,
       0x444, 0x43E, 0x440, 0x43C, 0x430, 0x446, 0x438, 0x44F],
     [0x441, 0x432, 0x44F, 0x437, 0x44C],
     [0x43A, 0x43E, 0x43D, 0x442, 0x430, 0x43A, 0x442, 0x43D, 0x44B, 0x435, 32, 0x434, 0x430,
       0x43D, 0x43D, 0x44B, 0x435]]"

definition about_keywords :: "jsstring list" where
  "about_keywords =
    [[0x43E, 32, 0x441, 0x435, 0x431, 0x435],
     [0x43E, 0x431, 0x43E, 32, 0x43C, 0x43D, 0x435],
     [0x43B, 0x438, 0x447, 0x43D, 0x430, 0x44F, 32, 0x438, 0x43D, 0x444, 0x43E, 0x440, 0x43C,
       0x430, 0x446, 0x438, 0x44F],
     [0x43A, 0x440, 0x430, 0x442, 0x43A, 0x430, 0x44F, 32, 0x438, 0x43D, 0x444, 0x43E, 0x440,
       0x43C, 0x430, 0x446, 0x438, 0x44F],
     [0x440, 0x435, 0x437, 0x44E, 0x43C, 0x435]]"

definition standardSections :: "(jsstring \<times> jsstring list) list" where
  "standardSections =
    [(ascii ''experience'', experience_keywords),
     (ascii ''education'', education_keywords),
     (ascii ''skills'', skills_keywords),
     (ascii ''contacts'', contacts_keywords),
     (ascii ''about'', about_keywords)]"

definition itSkills :: "jsstring list" where
  "itSkills = map ascii
    [''python'', ''java'', ''javascript'', ''react'', ''angular'', ''vue'', ''node.js'',
     ''express'', ''django'', ''flask'', ''spring'', ''hibernate'', ''sql'', ''postgresql'',
     ''mysql'', ''mongodb'', ''redis'', ''docker'', ''kubernetes'', ''aws'', ''azure'', ''git'',
     ''jenkins'', ''ci/cd'', ''html'', ''css'', ''typescript'', ''php'', ''laravel'',
     ''symfony'', ''c++'', ''c#'', ''.net'', ''go'', ''rust'', ''scala'', ''kotlin'', ''swift'',
     ''flutter'', ''react native'', ''android'', ''ios'', ''linux'', ''windows'', ''macos'',
     ''nginx'', ''apache'', ''elasticsearch'', ''kafka'']"

text \<open>
  The soft skills, in transliteration: kommunikatsiya, komandnaya rabota, liderstvo,
  upravlenie proektami, analiticheskoe myshlenie, reshenie problem, kreativnost',
  initsiativnost', adaptivnost', obuchaemost', stressoustoichivost', vnimatel'nost' k detalyam.
\<close>

definition softSkills :: "jsstring list" where
  "softSkills =
    [[0x43A, 0x43E, 0x43C, 0x43C, 0x443, 0x43D, 0x438, 0x43A, 0x430, 0x446, 0x438, 0x44F],
     [0x43A, 0x43E, 0x43C, 0x430, 0x43D, 0x434, 0x43D, 0x430, 0x44F, 32, 0x440, 0x430, 0x431,
       0x43E, 0x442, 0x430],
     [0x43B, 0x438, 0x434, 0x435, 0x440, 0x441, 0x442, 0x432, 0x43E],
     [0x443, 0x43F, 0x440, 0x430, 0x432, 0x43B, 0x435, 0x43D, 0x438, 0x435, 32, 0x43F, 0x440,
       0x43E, 0x435, 0x43A, 0x442, 0x430, 0x43C, 0x438],
     [0x430, 0x43D, 0x430, 0x43B, 0x438, 0x442, 0x438, 0x447, 0x435, 0x441, 0x43A, 0x43E, 0x435,
       32, 0x43C, 0x44B, 0x448, 0x43B, 0x435, 0x43D, 0x438, 0x435],
     [0x440, 0x435, 0x448, 0x435, 0x43D, 0x438, 0x435, 32, 0x43F, 0x440, 0x43E, 0x431, 0x43B,
       0x435, 0x43C],
     [0x43A, 0x440, 0x435, 0x430, 0x442, 0x438, 0x432, 0x43D, 0x43E, 0x441, 0x442, 0x44C],
     [0x438, 0x43D, 0x438, 0x446, 0x438, 0x430, 0x442, 0x438, 0x432, 0x43D, 0x43E, 0x441, 0x442,
       0x44C],
     [0x430, 0x434, 0x430, 0x43F, 0x442, 0x438, 0x432, 0x43D, 0x43E, 0x441, 0x442, 0x44C],
     [0x43E, 0x431, 0x443, 0x447, 0x430, 0x435, 0x43C, 0x43E, 0x441, 0x442, 0x44C],
     [0x441, 0x442, 0x440, 0x435, 0x441, 0x441, 0x43E, 0x443, 0x441, 0x442, 0x43E, 0x439, 0x447,
       0x438, 0x432, 0x43E, 0x441, 0x442, 0x44C],
     [0x432, 0x43D, 0x438, 0x43C, 0x430, 0x442, 0x435, 0x43B, 0x44C, 0x43D, 0x43E, 0x441, 0x442,
       0x44C, 32, 0x43A, 32, 0x434, 0x435, 0x442, 0x430, 0x43B, 0x44F, 0x43C]]"

text \<open>The weights are the doubles nearest to the decimal literals 0.40, 0.30, 0.15, 0.15.\<close>

definition weight_keywords :: rat where
  "weight_keywords = fl (40 / 100)"

definition weight_structure :: rat where
  "weight_structure = fl (30 / 100)"

definition weight_contacts :: rat where
  "weight_contacts = fl (15 / 100)"

definition weight_experience :: rat where
  "weight_experience = fl (15 / 100)"


section \<open>Parsing the resume\<close>

record ParsedResume =
  name :: "jsstring option"
  email :: "jsstring option"
  phone :: "jsstring option"
  position :: "jsstring option"
  skills :: "jsstring list"
  experience :: jsstring
  education :: jsstring
  sections :: "jsstring list"
  rawText :: jsstring

text \<open>\<^verbatim>\<open>text.replace(/\s+/g, ' ').trim()\<close>\<close>

definition normalizeText :: "jsstring \<Rightarrow> jsstring" where
  "normalizeText text = str_trim (rx_replace_all (Plus (Cls ws_cls)) [32] None text)"

text \<open>
  The name pattern
  \<^verbatim>\<open>/^([A-YA YO][a-ya yo]+(?:\s+[A-YA YO][a-ya yo]+){1,2})(?:\s|$)/\<close>, whose classes are
  the Cyrillic capitals U+0410..U+042F with U+0401 and the small letters U+0430..U+044F
  with U+0451.
\<close>

definition upper_ru :: "(int \<times> int) list" where
  "upper_ru = [(0x410, 0x42F), (0x401, 0x401)]"

definition lower_ru :: "(int \<times> int) list" where
  "lower_ru = [(0x430, 0x44F), (0x451, 0x451)]"

definition name_rx :: rx where
  "name_rx = rx_seq
     [Bol,
      Grp (rx_seq
        [Cls upper_ru, Plus (Cls lower_ru),
         rx_range 1 1 (rx_seq [Plus (Cls ws_cls), Cls upper_ru, Plus (Cls lower_ru)])]),
      Alt (Cls ws_cls) Eol]"

fun extractName_loop :: "jsstring list \<Rightarrow> jsstring option" where
  "extractName_loop [] = None"
| "extractName_loop (line # rest) =
     (case str_match name_rx (str_trim line) of
        None \<Rightarrow> extractName_loop rest
      | Some (m, g) \<Rightarrow> g)"

definition extractName :: "jsstring \<Rightarrow> jsstring option" where
  "extractName text = extractName_loop (take 5 (str_split 10 text))"

text \<open>\<^verbatim>\<open>/\b[A-Za-z0-9._%+-]+@[A-Za-z0-9.-]+\.[A-Z|a-z]{2,}\b/\<close>\<close>

definition email_rx :: rx where
  "email_rx = rx_seq
     [WordB,
      Plus (Cls [(65, 90), (97, 122), (48, 57), (46, 46), (95, 95), (37, 37), (43, 43), (45, 45)]),
      Chr 64,
      Plus (Cls [(65, 90), (97, 122), (48, 57), (46, 46), (45, 45)]),
      Chr 46,
      rx_atleast 2 (Cls [(65, 90), (124, 124), (97, 122)]),
      WordB]"

definition extractEmail :: "jsstring \<Rightarrow> jsstring option" where
  "extractEmail text =
     (case str_match email_rx text of None \<Rightarrow> None | Some (m, g) \<Rightarrow> Some m)"

text \<open>
  The three telephone patterns, tried in this order:
  \<^verbatim>\<open>/\+7[\s\-\(\)]*\d{3}[\s\-\(\)]*\d{3}[\s\-]*\d{2}[\s\-]*\d{2}/\<close>,
  \<^verbatim>\<open>/8[\s\-\(\)]*\d{3}[\s\-\(\)]*\d{3}[\s\-]*\d{2}[\s\-]*\d{2}/\<close> and
  \<^verbatim>\<open>/\d{3}[\s\-\(\)]*\d{3}[\s\-]*\d{2}[\s\-]*\d{2}/\<close>.
\<close>

definition digit :: rx where
  "digit = Cls [(48, 57)]"

definition sep_paren :: rx where
  "sep_paren = Star (Cls (ws_cls @ [(45, 45), (40, 40), (41, 41)]))"

definition sep_dash :: rx where
  "sep_dash = Star (Cls (ws_cls @ [(45, 45)]))"

definition phone_tail :: "rx list" where
  "phone_tail = [rx_times 3 digit, sep_dash, rx_times 2 digit, sep_dash, rx_times 2 digit]"

definition phonePatterns :: "rx list" where
  "phonePatterns =
     [rx_seq ([Chr 43, Chr 55, sep_paren, rx_times 3 digit, sep_paren] @ phone_tail),
      rx_seq ([Chr 56, sep_paren, rx_times 3 digit, sep_paren] @ phone_tail),
      rx_seq ([rx_times 3 digit, sep_paren] @ phone_tail)]"

fun extractPhone_loop :: "rx list \<Rightarrow> jsstring \<Rightarrow> jsstring option" where
  "extractPhone_loop [] text = None"
| "extractPhone_loop (pattern # rest) text =
     (case str_match pattern text of
        None \<Rightarrow> extractPhone_loop rest text
      | Some (m, g) \<Rightarrow> Some m)"

definition extractPhone :: "jsstring \<Rightarrow> jsstring option" where
  "extractPhone text = extractPhone_loop phonePatterns text"

text \<open>
  The position labels, in transliteration: dolzhnost', pozitsiya, spetsial'nost',
  professiya, tsel'.  The source splits the line with \<^verbatim>\<open>line.split(':', 1)\<close>, whose second
  argument limits the number of pieces of the result.
\<close>

definition positionKeywords :: "jsstring list" where
  "positionKeywords =
    [[0x434, 0x43E, 0x43B, 0x436, 0x43D, 0x43E, 0x441, 0x442, 0x44C],
     [0x43F, 0x43E, 0x437, 0x438, 0x446, 0x438, 0x44F],
     [0x441, 0x43F, 0x435, 0x446, 0x438, 0x430, 0x43B, 0x44C, 0x43D, 0x43E, 0x441, 0x442, 0x44C],
     [0x43F, 0x440, 0x43E, 0x444, 0x435, 0x441, 0x441, 0x438, 0x44F],
     [0x446, 0x435, 0x43B, 0x44C]]"

fun extractPosition_keywords :: "jsstring \<Rightarrow> jsstring \<Rightarrow> jsstring list \<Rightarrow> jsstring option" where
  "extractPosition_keywords line lowerLine [] = None"
| "extractPosition_keywords line lowerLine (keyword # rest) =
     (if str_includes lowerLine keyword
      then (let parts = str_split_limit 58 1 line in
            if length parts > 1 then Some (str_trim (parts ! 1))
            else extractPosition_keywords line lowerLine rest)
      else extractPosition_keywords line lowerLine rest)"

fun extractPosition_lines :: "(jsstring \<Rightarrow> jsstring) \<Rightarrow> jsstring list \<Rightarrow> jsstring option" where
  "extractPosition_lines lc [] = None"
| "extractPosition_lines lc (line # rest) =
     (case extractPosition_keywords line (str_trim (lc line)) positionKeywords of
        None \<Rightarrow> extractPosition_lines lc rest
      | Some r \<Rightarrow> Some r)"

definition extractPosition :: "(jsstring \<Rightarrow> jsstring) \<Rightarrow> jsstring \<Rightarrow> jsstring option" where
  "extractPosition lc text = extractPosition_lines lc (take 10 (str_split 10 text))"

definition extractSkills :: "(jsstring \<Rightarrow> jsstring) \<Rightarrow> jsstring \<Rightarrow> jsstring list" where
  "extractSkills lc text =
     (let textLower = lc text in
      uniq (filter (\<lambda>skill. str_includes textLower (lc skill)) itSkills @
            filter (\<lambda>skill. str_includes textLower (lc skill)) softSkills))"

definition detectSections :: "(jsstring \<Rightarrow> jsstring) \<Rightarrow> jsstring \<Rightarrow> jsstring list" where
  "detectSections lc text =
     (let textLower = lc text in
      uniq (map fst (filter (\<lambda>(sectionType, keywords). list_ex (str_includes textLower) keywords)
                       standardSections)))"

text \<open>
  \<^verbatim>\<open>extractExperienceSection\<close> and \<^verbatim>\<open>extractEducationSection\<close> are the same loop over the
  lines, with the key words of their own category: \<open>section_loop\<close> is that loop, its flag
  \<open>inSection\<close> and its \<^verbatim>\<open>continue\<close> and \<^verbatim>\<open>break\<close>; it returns the lines that were pushed.
\<close>

fun section_loop ::
  "(jsstring \<Rightarrow> jsstring) \<Rightarrow> jsstring list \<Rightarrow> bool \<Rightarrow> jsstring list \<Rightarrow> jsstring list" where
  "section_loop lc own inSection [] = []"
| "section_loop lc own inSection (line # rest) =
     (let lowerLine = str_trim (lc line) in
      if list_ex (str_includes lowerLine) own then section_loop lc own True rest
      else if inSection \<and>
              list_ex (str_includes lowerLine)
                (filter (\<lambda>keyword. \<not> List.member own keyword) (concat (map snd standardSections)))
           then []
      else if inSection \<and> str_trim line \<noteq> [] then line # section_loop lc own inSection rest
      else section_loop lc own inSection rest)"

definition extractExperienceSection :: "(jsstring \<Rightarrow> jsstring) \<Rightarrow> jsstring \<Rightarrow> jsstring" where
  "extractExperienceSection lc text =
     str_join [10] (section_loop lc experience_keywords False (str_split 10 text))"

definition extractEducationSection :: "(jsstring \<Rightarrow> jsstring) \<Rightarrow> jsstring \<Rightarrow> jsstring" where
  "extractEducationSection lc text =
     str_join [10] (section_loop lc education_keywords False (str_split 10 text))"

definition parseResume :: "(jsstring \<Rightarrow> jsstring) \<Rightarrow> jsstring \<Rightarrow> ParsedResume" where
  "parseResume lc text =
     (let normalizedText = normalizeText text in
      \<lparr>name = extractName normalizedText,
       email = extractEmail normalizedText,
       phone = extractPhone normalizedText,
       position = extractPosition lc normalizedText,
       skills = extractSkills lc normalizedText,
       experience = extractExperienceSection lc normalizedText,
       education = extractEducationSection lc normalizedText,
       sections = detectSections lc normalizedText,
       rawText = normalizedText\<rparr>)"


section \<open>The requirements of the vacancy\<close>

record VacancyRequirements =
  technicalSkills :: "jsstring list"
  req_softSkills :: "jsstring list"
  req_keywords :: "jsstring list"

text \<open>
  The frequency table is an object used as a dictionary: a new word is added after the
  words already there, and \<^verbatim>\<open>Object.entries\<close> lists the words in that order (the words are
  Cyrillic, so none is an array index).  \<^verbatim>\<open>Array.prototype.sort\<close> is stable; the comparison
  \<^verbatim>\<open>b - a\<close> puts the larger count first.
\<close>

fun bump :: "jsstring \<Rightarrow> (jsstring \<times> nat) list \<Rightarrow> (jsstring \<times> nat) list" where
  "bump w [] = [(w, 1)]"
| "bump w ((k, n) # t) = (if k = w then (k, n + 1) # t else (k, n) # bump w t)"

definition word_rx :: rx where
  "word_rx = rx_atleast 3 (Cls lower_ru)"

definition vacancyWords :: "jsstring \<Rightarrow> jsstring list" where
  "vacancyWords textLower = rx_match_all word_rx None textLower"

definition extractVacancyRequirements ::
  "(jsstring \<Rightarrow> jsstring) \<Rightarrow> jsstring \<Rightarrow> VacancyRequirements" where
  "extractVacancyRequirements lc vacancyText =
     (let textLower = lc vacancyText;
          techRequirements = filter (\<lambda>skill. str_includes textLower (lc skill)) itSkills;
          softRequirements = filter (\<lambda>skill. str_includes textLower (lc skill)) softSkills;
          words = vacancyWords textLower;
          wordFreq = fold bump words [];
          keywords =
            map fst (take 20 (sort_key (\<lambda>(word, freq). - int freq)
                                (filter (\<lambda>(word, freq). freq > 1) wordFreq)))
      in \<lparr>technicalSkills = techRequirements,
          req_softSkills = softRequirements,
          req_keywords = keywords\<rparr>)"


section \<open>The four scores\<close>

text \<open>
  The loop of \<^verbatim>\<open>analyzeKeywords\<close> that pushes every requirement to \<^verbatim>\<open>matched\<close> or to
  \<^verbatim>\<open>missing\<close>.
\<close>

definition partitionRequirements ::
  "(jsstring \<Rightarrow> jsstring) \<Rightarrow> jsstring \<Rightarrow> jsstring list \<Rightarrow> jsstring list \<times> jsstring list" where
  "partitionRequirements lc resumeTextLower allRequirements =
     fold (\<lambda>requirement (matched, missing).
             if str_includes resumeTextLower (lc requirement)
             then (matched @ [requirement], missing)
             else (matched, missing @ [requirement]))
          allRequirements ([], [])"

definition allRequirements :: "VacancyRequirements \<Rightarrow> jsstring list" where
  "allRequirements requirements =
     technicalSkills requirements @ req_softSkills requirements @ req_keywords requirements"

definition analyzeKeywords ::
  "(jsstring \<Rightarrow> jsstring) \<Rightarrow> ParsedResume \<Rightarrow> VacancyRequirements
     \<Rightarrow> int \<times> jsstring list \<times> jsstring list" where
  "analyzeKeywords lc resume requirements =
     (let resumeTextLower = lc (rawText resume);
          reqs = allRequirements requirements;
          (matched, missing) = partitionRequirements lc resumeTextLower reqs
      in if length reqs = 0 then (100, [], [])
         else (min (Math_round (fmul (fdiv (of_nat (length matched)) (of_nat (length reqs))) 100))
                 100,
               matched, take 10 missing))"

definition expectedSections :: "jsstring list" where
  "expectedSections = [ascii ''experience'', ascii ''education'', ascii ''skills'']"

definition analyzeStructure :: "ParsedResume \<Rightarrow> int" where
  "analyzeStructure resume =
     (let score0 = 0;
          foundSections = length (filter (\<lambda>s. s \<in> set (sections resume)) expectedSections);
          score1 = fadd score0
                     (fmul (fdiv (of_nat foundSections) (of_nat (length expectedSections))) 70);
          score2 = (if ascii ''contacts'' \<in> set (sections resume) then fadd score1 15 else score1);
          score3 = (if length (str_split 10 (rawText resume)) > 5 then fadd score2 15 else score2)
      in min (Math_round score3) 100)"

definition analyzeContacts :: "ParsedResume \<Rightarrow> int" where
  "analyzeContacts resume =
     (let score0 = 0;
          score1 = (if truthy (email resume) then score0 + 40 else score0);
          score2 = (if truthy (phone resume) then score1 + 40 else score1);
          score3 = (if truthy (name resume) then score2 + 20 else score2)
      in min score3 100)"

definition analyzeExperience ::
  "(jsstring \<Rightarrow> jsstring) \<Rightarrow> ParsedResume \<Rightarrow> VacancyRequirements \<Rightarrow> int" where
  "analyzeExperience lc resume requirements =
     (if experience resume = [] then 0
      else
        let score1 = 40;
            score2 = (if length (experience resume) > 200 then score1 + 30
                      else if length (experience resume) > 100 then score1 + 20
                      else if length (experience resume) > 50 then score1 + 10
                      else score1);
            experienceLower = lc (experience resume);
            relevantSkills = filter (\<lambda>skill. str_includes experienceLower (lc skill))
                               (technicalSkills requirements);
            score3 = (if length relevantSkills > 0
                      then score2 + min (int (length relevantSkills) * 5) 30
                      else score2)
        in min score3 100)"


section \<open>Recommendations and the result\<close>

datatype RecommendationType = Critical | Warning | Improvement

record Recommendation =
  rtype :: RecommendationType
  title :: jsstring
  description :: jsstring
  example :: "jsstring option"

record Breakdown =
  b_keywords :: int
  b_structure :: int
  b_contacts :: int
  b_experience :: int

record ATSAnalysisResult =
  score :: int
  breakdown :: Breakdown
  recommendations :: "Recommendation list"
  parsedResume :: ParsedResume
  matchedKeywords :: "jsstring list"
  missingKeywords :: "jsstring list"

text \<open>
  Rule 1, on the key words.  Title: "Dobav'te klyuchevye slova iz vakansii"; description:
  "Vashe rezyume ne soderzhit N vazhnykh klyuchevykh slov. ATS sistemy ishchut tochnye
  sovpadeniya.", where N is the length of the list the function was given; example:
  "Dobav'te: " and the first five of that list.
\<close>

definition keywordsDescription :: "nat \<Rightarrow> jsstring" where
  "keywordsDescription n =
     [0x412, 0x430, 0x448, 0x435, 32, 0x440, 0x435, 0x437, 0x44E, 0x43C, 0x435, 32, 0x43D, 0x435,
       32, 0x441, 0x43E, 0x434, 0x435, 0x440, 0x436, 0x438, 0x442, 32] @ show_nat n @
     [32, 0x432, 0x430, 0x436, 0x43D, 0x44B, 0x445, 32, 0x43A, 0x43B, 0x44E, 0x447, 0x435, 0x432,
       0x44B, 0x445, 32, 0x441, 0x43B, 0x43E, 0x432, 46, 32, 65, 84, 83, 32, 0x441, 0x438, 0x441,
       0x442, 0x435, 0x43C, 0x44B, 32, 0x438, 0x449, 0x443, 0x442, 32, 0x442, 0x43E, 0x447, 0x43D,
       0x44B, 0x435, 32, 0x441, 0x43E, 0x432, 0x43F, 0x430, 0x434, 0x435, 0x43D, 0x438, 0x44F,
       46]"

definition keywordsRecommendation :: "jsstring list \<Rightarrow> Recommendation" where
  "keywordsRecommendation missing =
     \<lparr>rtype = Critical,
      title = [0x414, 0x43E, 0x431, 0x430, 0x432, 0x44C, 0x442, 0x435, 32, 0x43A, 0x43B, 0x44E,
        0x447, 0x435, 0x432, 0x44B, 0x435, 32, 0x441, 0x43B, 0x43E, 0x432, 0x430, 32, 0x438,
        0x437, 32, 0x432, 0x430, 0x43A, 0x430, 0x43D, 0x441, 0x438, 0x438],
      description = keywordsDescription (length missing),
      example = Some ([0x414, 0x43E, 0x431, 0x430, 0x432, 0x44C, 0x442, 0x435, 58,
        32] @ str_join (ascii '', '') (take 5 missing))\<rparr>"

text \<open>
  Rule 2, on the structure.  Title: "Dobav'te standartnye razdely"; the missing sections are
  named "opyt raboty", "obrazovanie", "navyki".
\<close>

definition structureRecommendation :: "jsstring list \<Rightarrow> Recommendation" where
  "structureRecommendation missingSections =
     \<lparr>rtype = Warning,
      title = [0x414, 0x43E, 0x431, 0x430, 0x432, 0x44C, 0x442, 0x435, 32, 0x441, 0x442, 0x430,
        0x43D, 0x434, 0x430, 0x440, 0x442, 0x43D, 0x44B, 0x435, 32, 0x440, 0x430, 0x437, 0x434,
        0x435, 0x43B, 0x44B],
      description =
        [65, 84, 83, 32, 0x441, 0x438, 0x441, 0x442, 0x435, 0x43C, 0x44B, 32, 0x43E, 0x436, 0x438,
          0x434, 0x430, 0x44E, 0x442, 32, 0x441, 0x442, 0x430, 0x43D, 0x434, 0x430, 0x440, 0x442,
          0x43D, 0x443, 0x44E, 32, 0x441, 0x442, 0x440, 0x443, 0x43A, 0x442, 0x443, 0x440, 0x443,
          32, 0x440, 0x435, 0x437, 0x44E, 0x43C, 0x435, 46, 32, 0x41E, 0x442, 0x441, 0x443, 0x442,
          0x441, 0x442, 0x432, 0x443, 0x44E, 0x442, 32, 0x440, 0x430, 0x437, 0x434, 0x435, 0x43B,
          0x44B, 58, 32] @
        str_join (ascii '', '') missingSections,
      example = Some [0x418, 0x441, 0x43F, 0x43E, 0x43B, 0x44C, 0x437, 0x443, 0x439, 0x442, 0x435,
        32, 0x437, 0x430, 0x433, 0x43E, 0x43B, 0x43E, 0x432, 0x43A, 0x438, 58, 32, 34, 0x41E,
        0x43F, 0x44B, 0x442, 32, 0x440, 0x430, 0x431, 0x43E, 0x442, 0x44B, 34, 44, 32, 34, 0x41E,
        0x431, 0x440, 0x430, 0x437, 0x43E, 0x432, 0x430, 0x43D, 0x438, 0x435, 34, 44, 32, 34,
        0x41A, 0x43B, 0x44E, 0x447, 0x435, 0x432, 0x44B, 0x435, 32, 0x43D, 0x430, 0x432, 0x44B,
        0x43A, 0x438, 34]\<rparr>"

text \<open>
  Rule 3, on the contacts.  Title: "Dobav'te kontaktnuyu informatsiyu"; the missing fields
  are named "email", "telefon", "FIO".
\<close>

definition contactsRecommendation :: "jsstring list \<Rightarrow> Recommendation" where
  "contactsRecommendation missingContacts =
     \<lparr>rtype = Critical,
      title = [0x414, 0x43E, 0x431, 0x430, 0x432, 0x44C, 0x442, 0x435, 32, 0x43A, 0x43E, 0x43D,
        0x442, 0x430, 0x43A, 0x442, 0x43D, 0x443, 0x44E, 32, 0x438, 0x43D, 0x444, 0x43E, 0x440,
        0x43C, 0x430, 0x446, 0x438, 0x44E],
      description =
        [0x41E, 0x442, 0x441, 0x443, 0x442, 0x441, 0x442, 0x432, 0x443, 0x44E, 0x442, 32, 0x432,
          0x430, 0x436, 0x43D, 0x44B, 0x435, 32, 0x43A, 0x43E, 0x43D, 0x442, 0x430, 0x43A, 0x442,
          0x43D, 0x44B, 0x435, 32, 0x434, 0x430, 0x43D, 0x43D, 0x44B, 0x435, 58,
          32] @ str_join (ascii '', '') missingContacts,
      example = Some [0x423, 0x43A, 0x430, 0x436, 0x438, 0x442, 0x435, 32, 0x424, 0x418, 0x41E,
        44, 32, 0x442, 0x435, 0x43B, 0x435, 0x444, 0x43E, 0x43D, 32, 0x438, 32, 101, 109, 97, 105,
        108, 32, 0x432, 32, 0x43D, 0x430, 0x447, 0x430, 0x43B, 0x435, 32, 0x440, 0x435, 0x437,
        0x44E, 0x43C, 0x435]\<rparr>"

text \<open>
  Rule 4, on the experience: "Detal'no opishite opyt raboty" when the experience text is
  empty, "Rasshir'te opisanie opyta" when it is shorter than 100 code units.
\<close>

definition describeExperienceTitle :: jsstring where
  "describeExperienceTitle = [0x414, 0x435, 0x442, 0x430, 0x43B, 0x44C, 0x43D, 0x43E, 32, 0x43E,
    0x43F, 0x438, 0x448, 0x438, 0x442, 0x435, 32, 0x43E, 0x43F, 0x44B, 0x442, 32, 0x440, 0x430,
    0x431, 0x43E, 0x442, 0x44B]"

definition describeExperience :: Recommendation where
  "describeExperience =
     \<lparr>rtype = Warning,
      title = describeExperienceTitle,
      description = [0x420, 0x430, 0x437, 0x434, 0x435, 0x43B, 32, 0x43E, 0x43F, 0x44B, 0x442,
        0x430, 32, 0x440, 0x430, 0x431, 0x43E, 0x442, 0x44B, 32, 0x43E, 0x442, 0x441, 0x443,
        0x442, 0x441, 0x442, 0x432, 0x443, 0x435, 0x442, 32, 0x438, 0x43B, 0x438, 32, 0x441,
        0x43B, 0x438, 0x448, 0x43A, 0x43E, 0x43C, 32, 0x43A, 0x440, 0x430, 0x442, 0x43A, 0x438,
        0x439],
      example = Some [0x423, 0x43A, 0x430, 0x436, 0x438, 0x442, 0x435, 32, 0x43A, 0x43E, 0x43C,
        0x43F, 0x430, 0x43D, 0x438, 0x438, 44, 32, 0x434, 0x43E, 0x43B, 0x436, 0x43D, 0x43E,
        0x441, 0x442, 0x438, 44, 32, 0x43F, 0x435, 0x440, 0x438, 0x43E, 0x434, 32, 0x440, 0x430,
        0x431, 0x43E, 0x442, 0x44B, 32, 0x438, 32, 0x43E, 0x441, 0x43D, 0x43E, 0x432, 0x43D,
        0x44B, 0x435, 32, 0x43E, 0x431, 0x44F, 0x437, 0x430, 0x43D, 0x43D, 0x43E, 0x441, 0x442,
        0x438]\<rparr>"

definition expandExperience :: Recommendation where
  "expandExperience =
     \<lparr>rtype = Improvement,
      title = [0x420, 0x430, 0x441, 0x448, 0x438, 0x440, 0x44C, 0x442, 0x435, 32, 0x43E, 0x43F,
        0x438, 0x441, 0x430, 0x43D, 0x438, 0x435, 32, 0x43E, 0x43F, 0x44B, 0x442, 0x430],
      description = [0x41E, 0x43F, 0x438, 0x441, 0x430, 0x43D, 0x438, 0x435, 32, 0x43E, 0x43F,
        0x44B, 0x442, 0x430, 32, 0x440, 0x430, 0x431, 0x43E, 0x442, 0x44B, 32, 0x441, 0x43B,
        0x438, 0x448, 0x43A, 0x43E, 0x43C, 32, 0x43A, 0x440, 0x430, 0x442, 0x43A, 0x43E, 0x435,
        32, 0x434, 0x43B, 0x44F, 32, 0x44D, 0x444, 0x444, 0x435, 0x43A, 0x442, 0x438, 0x432,
        0x43D, 0x43E, 0x433, 0x43E, 32, 0x430, 0x43D, 0x430, 0x43B, 0x438, 0x437, 0x430, 32, 65,
        84, 83],
      example = Some [0x414, 0x43E, 0x431, 0x430, 0x432, 0x44C, 0x442, 0x435, 32, 0x43A, 0x43E,
        0x43D, 0x43A, 0x440, 0x435, 0x442, 0x43D, 0x44B, 0x435, 32, 0x434, 0x43E, 0x441, 0x442,
        0x438, 0x436, 0x435, 0x43D, 0x438, 0x44F, 44, 32, 0x43F, 0x440, 0x43E, 0x435, 0x43A,
        0x442, 0x44B, 32, 0x438, 32, 0x438, 0x441, 0x43F, 0x43E, 0x43B, 0x44C, 0x437, 0x443,
        0x435, 0x43C, 0x44B, 0x435, 32, 0x442, 0x435, 0x445, 0x43D, 0x43E, 0x43B, 0x43E, 0x433,
        0x438, 0x438]\<rparr>"

text \<open>The closing recommendation, "Otlichnaya rabota!".\<close>

definition affirmationTitle :: jsstring where
  "affirmationTitle = [0x41E, 0x442, 0x43B, 0x438, 0x447, 0x43D, 0x430, 0x44F, 32, 0x440, 0x430,
    0x431, 0x43E, 0x442, 0x430, 33]"

definition affirmation :: Recommendation where
  "affirmation =
     \<lparr>rtype = Improvement,
      title = affirmationTitle,
      description = [0x412, 0x430, 0x448, 0x435, 32, 0x440, 0x435, 0x437, 0x44E, 0x43C, 0x435, 32,
        0x445, 0x43E, 0x440, 0x43E, 0x448, 0x43E, 32, 0x43E, 0x43F, 0x442, 0x438, 0x43C, 0x438,
        0x437, 0x438, 0x440, 0x43E, 0x432, 0x430, 0x43D, 0x43E, 32, 0x434, 0x43B, 0x44F, 32, 65,
        84, 83, 32, 0x441, 0x438, 0x441, 0x442, 0x435, 0x43C],
      example = Some [0x41F, 0x440, 0x43E, 0x434, 0x43E, 0x43B, 0x436, 0x430, 0x439, 0x442, 0x435,
        32, 0x43E, 0x431, 0x43D, 0x43E, 0x432, 0x43B, 0x44F, 0x442, 0x44C, 32, 0x440, 0x435,
        0x437, 0x44E, 0x43C, 0x435, 32, 0x430, 0x43A, 0x442, 0x443, 0x430, 0x43B, 0x44C, 0x43D,
        0x44B, 0x43C, 0x438, 32, 0x43D, 0x430, 0x432, 0x44B, 0x43A, 0x430, 0x43C, 0x438, 32,
        0x438, 32, 0x434, 0x43E, 0x441, 0x442, 0x438, 0x436, 0x435, 0x43D, 0x438, 0x44F, 0x43C,
        0x438]\<rparr>"

text \<open>
  \<^verbatim>\<open>generateRecommendations\<close> pushes onto one array in four blocks, one for each score, and
  then adds the closing recommendation if the array is still empty.  Each block is written
  here as the list of what it pushes, and the array as their concatenation in the order
  of the source.
\<close>

definition keywordsRule :: "Breakdown \<Rightarrow> jsstring list \<Rightarrow> Recommendation list" where
  "keywordsRule bd missing =
     (if b_keywords bd < 70
      then (if length missing > 0 then [keywordsRecommendation missing] else [])
      else [])"

definition structureRule :: "Breakdown \<Rightarrow> ParsedResume \<Rightarrow> Recommendation list" where
  "structureRule bd resume =
     (if b_structure bd < 70
      then (let missingSections =
              (if ascii ''experience'' \<notin> set (sections resume)
               then [[0x43E, 0x43F, 0x44B, 0x442, 32, 0x440, 0x430, 0x431, 0x43E, 0x442,
                 0x44B]] else []) @
              (if ascii ''education'' \<notin> set (sections resume)
               then [[0x43E, 0x431, 0x440, 0x430, 0x437, 0x43E, 0x432, 0x430, 0x43D, 0x438,
                 0x435]] else []) @
              (if ascii ''skills'' \<notin> set (sections resume)
               then [[0x43D, 0x430, 0x432, 0x44B, 0x43A, 0x438]] else [])
            in if length missingSections > 0
               then [structureRecommendation missingSections] else [])
      else [])"

definition contactsRule :: "Breakdown \<Rightarrow> ParsedResume \<Rightarrow> Recommendation list" where
  "contactsRule bd resume =
     (if b_contacts bd < 80
      then (let missingContacts =
              (if \<not> truthy (email resume) then [ascii ''email''] else []) @
              (if \<not> truthy (phone resume) then [[0x442, 0x435, 0x43B, 0x435, 0x444, 0x43E,
                0x43D]] else []) @
              (if \<not> truthy (name resume) then [[0x424, 0x418, 0x41E]] else [])
            in if length missingContacts > 0
               then [contactsRecommendation missingContacts] else [])
      else [])"

definition experienceRule :: "Breakdown \<Rightarrow> ParsedResume \<Rightarrow> Recommendation list" where
  "experienceRule bd resume =
     (if b_experience bd < 60
      then (if experience resume = [] then [describeExperience]
            else if length (experience resume) < 100 then [expandExperience]
            else [])
      else [])"

definition generateRecommendations ::
  "Breakdown \<Rightarrow> ParsedResume \<Rightarrow> VacancyRequirements \<Rightarrow> jsstring list \<Rightarrow> jsstring list
     \<Rightarrow> Recommendation list" where
  "generateRecommendations bd resume requirements matched missing =
     (let recs = keywordsRule bd missing @ structureRule bd resume @ contactsRule bd resume
                   @ experienceRule bd resume
      in if length recs = 0 then recs @ [affirmation] else recs)"

definition totalScore :: "Breakdown \<Rightarrow> int" where
  "totalScore bd =
     Math_round
       (fadd (fadd (fadd (fmul (of_int (b_keywords bd)) weight_keywords)
                         (fmul (of_int (b_structure bd)) weight_structure))
                   (fmul (of_int (b_contacts bd)) weight_contacts))
             (fmul (of_int (b_experience bd)) weight_experience))"

definition analyzeResume ::
  "(jsstring \<Rightarrow> jsstring) \<Rightarrow> jsstring \<Rightarrow> jsstring \<Rightarrow> ATSAnalysisResult" where
  "analyzeResume lc resumeText vacancyText =
     (let resume = parseResume lc resumeText;
          vacancyRequirements = extractVacancyRequirements lc vacancyText;
          (keywordsScore, matched, missing) = analyzeKeywords lc resume vacancyRequirements;
          structureScore = analyzeStructure resume;
          contactsScore = analyzeContacts resume;
          experienceScore = analyzeExperience lc resume vacancyRequirements;
          bd = \<lparr>b_keywords = keywordsScore, b_structure = structureScore,
                b_contacts = contactsScore, b_experience = experienceScore\<rparr>;
          recs = generateRecommendations bd resume vacancyRequirements matched missing
      in \<lparr>score = totalScore bd,
          breakdown = bd,
          recommendations = recs,
          parsedResume = resume,
          matchedKeywords = matched,
          missingKeywords = missing\<rparr>)"


section \<open>Concrete inputs\<close>

text \<open>
  The scenario of the specification: the resume "Ivan Ivanov", "ivan@mail.ru",
  "+7 900 123 45 67", "Opyt raboty: 3 goda Python razrabotki, Docker, Git" on four lines,
  and the vacancy "Ishchem Python razrabotchika s opytom Docker i Git".
\<close>

definition scenario_resume :: jsstring where
  "scenario_resume =
     [0x418, 0x432, 0x430, 0x43D, 32, 0x418, 0x432, 0x430, 0x43D, 0x43E, 0x432, 10, 105, 118, 97,
       110, 64, 109, 97, 105, 108, 46, 114, 117, 10, 43, 55, 32, 57, 48, 48, 32, 49, 50, 51, 32,
       52, 53, 32, 54, 55, 10, 0x41E, 0x43F, 0x44B, 0x442, 32, 0x440, 0x430, 0x431, 0x43E, 0x442,
       0x44B, 58, 32, 51, 32, 0x433, 0x43E, 0x434, 0x430, 32, 80, 121, 116, 104, 111, 110, 32,
       0x440, 0x430, 0x437, 0x440, 0x430, 0x431, 0x43E, 0x442, 0x43A, 0x438, 44, 32, 68, 111, 99,
       107, 101, 114, 44, 32, 71, 105, 116]"

definition scenario_vacancy :: jsstring where
  "scenario_vacancy = [0x418, 0x449, 0x435, 0x43C, 32, 80, 121, 116, 104, 111, 110, 32, 0x440,
    0x430, 0x437, 0x440, 0x430, 0x431, 0x43E, 0x442, 0x447, 0x438, 0x43A, 0x430, 32, 0x441, 32,
    0x43E, 0x43F, 0x44B, 0x442, 0x43E, 0x43C, 32, 68, 111, 99, 107, 101, 114, 32, 0x438, 32, 71,
    105, 116]"


text \<open>The parsed resume and the requirements of the scenario.\<close>

definition ivan_ivanov :: jsstring where
  "ivan_ivanov = [0x418, 0x432, 0x430, 0x43D, 32, 0x418, 0x432, 0x430, 0x43D, 0x43E, 0x432]"

definition scenario_normalized :: jsstring where
  "scenario_normalized =
     [0x418, 0x432, 0x430, 0x43D, 32, 0x418, 0x432, 0x430, 0x43D, 0x43E, 0x432, 32, 105, 118, 97,
       110, 64, 109, 97, 105, 108, 46, 114, 117, 32, 43, 55, 32, 57, 48, 48, 32, 49, 50, 51, 32,
       52, 53, 32, 54, 55, 32, 0x41E, 0x43F, 0x44B, 0x442, 32, 0x440, 0x430, 0x431, 0x43E, 0x442,
       0x44B, 58, 32, 51, 32, 0x433, 0x43E, 0x434, 0x430, 32, 80, 121, 116, 104, 111, 110, 32,
       0x440, 0x430, 0x437, 0x440, 0x430, 0x431, 0x43E, 0x442, 0x43A, 0x438, 44, 32, 68, 111, 99,
       107, 101, 114, 44, 32, 71, 105, 116]"

definition scenario_parsed :: ParsedResume where
  "scenario_parsed =
     \<lparr>name = Some ivan_ivanov,
      email = Some (ascii ''ivan@mail.ru''),
      phone = Some [43, 55, 32, 57, 48, 48, 32, 49, 50, 51, 32, 52, 53, 32, 54, 55],
      position = None,
      skills = [ascii ''python'', ascii ''docker'', ascii ''git''],
      experience = [],
      education = [],
      sections = [ascii ''experience''],
      rawText = scenario_normalized\<rparr>"

definition scenario_requirements :: VacancyRequirements where
  "scenario_requirements =
     \<lparr>technicalSkills = [ascii ''python'', ascii ''docker'', ascii ''git''],
      req_softSkills = [],
      req_keywords = []\<rparr>"

text \<open>
  A resume of five lines, "Opyt raboty", "Razrabotchik Python", "Docker i Git",
  "Obrazovanie", "MGU", and the two lines between its section headings.
\<close>

definition block_resume :: jsstring where
  "block_resume = [0x41E, 0x43F, 0x44B, 0x442, 32, 0x440, 0x430, 0x431, 0x43E, 0x442, 0x44B, 10,
    0x420, 0x430, 0x437, 0x440, 0x430, 0x431, 0x43E, 0x442, 0x447, 0x438, 0x43A, 32, 80, 121, 116,
    104, 111, 110, 10, 68, 111, 99, 107, 101, 114, 32, 0x438, 32, 71, 105, 116, 10, 0x41E, 0x431,
    0x440, 0x430, 0x437, 0x43E, 0x432, 0x430, 0x43D, 0x438, 0x435, 10, 0x41C, 0x413, 0x423]"

definition block_expected :: jsstring where
  "block_expected = [0x420, 0x430, 0x437, 0x440, 0x430, 0x431, 0x43E, 0x442, 0x447, 0x438, 0x43A,
    32, 80, 121, 116, 104, 111, 110, 10, 68, 111, 99, 107, 101, 114, 32, 0x438, 32, 71, 105, 116]"

text \<open>A resume whose second line is the name: "ivan@mail.ru", "Ivan Ivanov".\<close>

definition name_resume :: jsstring where
  "name_resume = [105, 118, 97, 110, 64, 109, 97, 105, 108, 46, 114, 117, 10, 0x418, 0x432, 0x430,
    0x43D, 32, 0x418, 0x432, 0x430, 0x43D, 0x43E, 0x432]"

text \<open>A resume whose name is split over its two lines: "Ivan", "Ivanov".\<close>

definition split_name_resume :: jsstring where
  "split_name_resume = [0x418, 0x432, 0x430, 0x43D, 10, 0x418, 0x432, 0x430, 0x43D, 0x43E, 0x432]"

text \<open>A resume of one line with a position label: "Dolzhnost': Razrabotchik".\<close>

definition position_resume :: jsstring where
  "position_resume = [0x414, 0x43E, 0x43B, 0x436, 0x43D, 0x43E, 0x441, 0x442, 0x44C, 58, 32,
    0x420, 0x430, 0x437, 0x440, 0x430, 0x431, 0x43E, 0x442, 0x447, 0x438, 0x43A]"

text \<open>A vacancy that names twelve technical skills, and a resume that has none of them.\<close>

definition skills_vacancy :: jsstring where
  "skills_vacancy = [112, 121, 116, 104, 111, 110, 32, 106, 97, 118, 97, 32, 115, 113, 108, 32, 114, 101, 100, 105, 115, 32, 100, 111, 99, 107, 101, 114, 32, 97, 119, 115, 32, 103, 105, 116, 32, 104, 116, 109, 108, 32, 99, 115, 115, 32, 112, 104, 112, 32, 114, 117, 115, 116, 32, 115, 99, 97, 108, 97]"

definition bare_resume :: jsstring where
  "bare_resume = [0x418, 0x432, 0x430, 0x43D, 32, 0x418, 0x432, 0x430, 0x43D, 0x43E, 0x432]"

definition twelve_skills :: "jsstring list" where
  "twelve_skills = map ascii
     [''python'', ''java'', ''sql'', ''redis'', ''docker'', ''aws'', ''git'', ''html'', ''css'',
      ''php'', ''rust'', ''scala'']"

text \<open>
  A vacancy that names forty technical skills, and a resume that names the first twenty-two
  of them; "go" occurs in "django", so twenty-three of the forty are matched.
\<close>

definition forty_skills :: "jsstring list" where
  "forty_skills = map ascii
     [''python'', ''java'', ''javascript'', ''react'', ''angular'', ''vue'', ''node.js'',
      ''express'', ''django'', ''flask'', ''spring'', ''hibernate'', ''sql'', ''postgresql'',
      ''mysql'', ''mongodb'', ''redis'', ''docker'', ''kubernetes'', ''aws'', ''azure'', ''git'',
      ''jenkins'', ''ci/cd'', ''html'', ''css'', ''typescript'', ''php'', ''laravel'',
      ''symfony'', ''c++'', ''c#'', ''.net'', ''go'', ''rust'', ''scala'', ''kotlin'', ''swift'',
      ''flutter'', ''android'']"



text \<open>
  A resume of eight lines with the headings of four sections: "Ivan Ivanov",
  "Kontakty: ivan@mail.ru", "Opyt raboty", "Razrabotchik Python", "Obrazovanie", "MGU",
  "Navyki", "Python, Docker".
\<close>

definition structured_resume :: jsstring where
  "structured_resume =
     [0x418, 0x432, 0x430, 0x43D, 32, 0x418, 0x432, 0x430, 0x43D, 0x43E, 0x432, 10, 0x41A, 0x43E,
       0x43D, 0x442, 0x430, 0x43A, 0x442, 0x44B, 58, 32, 105, 118, 97, 110, 64, 109, 97, 105, 108,
       46, 114, 117, 10, 0x41E, 0x43F, 0x44B, 0x442, 32, 0x440, 0x430, 0x431, 0x43E, 0x442, 0x44B,
       10, 0x420, 0x430, 0x437, 0x440, 0x430, 0x431, 0x43E, 0x442, 0x447, 0x438, 0x43A, 32, 80,
       121, 116, 104, 111, 110, 10, 0x41E, 0x431, 0x440, 0x430, 0x437, 0x43E, 0x432, 0x430, 0x43D,
       0x438, 0x435, 10, 0x41C, 0x413, 0x423, 10, 0x41D, 0x430, 0x432, 0x44B, 0x43A, 0x438, 10,
       80, 121, 116, 104, 111, 110, 44, 32, 68, 111, 99, 107, 101, 114]"




section \<open>The formulas of the specification\<close>

text \<open>
  The structure score as the specification states it, in exact arithmetic: the share of the
  three expected sections times 70, plus 15 for the contacts section, plus 15 for more than
  five lines, rounded and clamped to 100.
\<close>

definition structure_spec :: "nat \<Rightarrow> bool \<Rightarrow> bool \<Rightarrow> int" where
  "structure_spec found hasContacts manyLines =
     min (Math_round (of_nat found / 3 * 70 + (if hasContacts then 15 else 0)
            + (if manyLines then 15 else 0))) 100"

text \<open>
  The key word score as the specification states it, in exact arithmetic: the share of
  matched requirements times 100, rounded to the nearest integer (a tie going up, as
  \<^verbatim>\<open>Math.round\<close> does) and clamped to 100.
\<close>

definition keyword_score_spec :: "nat \<Rightarrow> nat \<Rightarrow> int" where
  "keyword_score_spec m n = min (Math_round (of_nat m / of_nat n * 100)) 100"

text \<open>
  The arithmetic of \<^verbatim>\<open>analyzeStructure\<close> as the source performs it, on JavaScript numbers, as
  a function of the number of expected sections found and of the two tests.
\<close>

definition structure_float :: "nat \<Rightarrow> bool \<Rightarrow> bool \<Rightarrow> int" where
  "structure_float found hasContacts manyLines =
     (let score0 = 0;
          score1 = fadd score0 (fmul (fdiv (of_nat found) 3) 70);
          score2 = (if hasContacts then fadd score1 15 else score1);
          score3 = (if manyLines then fadd score2 15 else score2)
      in min (Math_round score3) 100)"

text \<open>The key words of all five sections.\<close>

definition sectionKeywords :: "jsstring list" where
  "sectionKeywords = concat (map snd standardSections)"

section \<open>Code equations\<close>

text \<open>
  The searches, restated with \<open>if\<close> so that they can be evaluated by rewriting.
\<close>

lemma rx_search_code [code]:
  "rx_search r p s =
     (let ms = rx_m r (p, s, None) in
      if ms = [] then (if s = [] then None else rx_search r (Some (hd s)) (tl s))
      else Some (take (length s - rest_len (hd ms)) s, snd (snd (hd ms))))"
  by (cases s; cases "rx_m r (p, s, None)") (auto simp: rest_len_def)

lemma rx_match_all_code [code]:
  "rx_match_all r p s =
     (let ms = rx_m r (p, s, None) in
      if ms = [] then (if s = [] then [] else rx_match_all r (Some (hd s)) (tl s))
      else if rest_len (hd ms) < length s
        then take (length s - rest_len (hd ms)) s # rx_match_all r (fst (hd ms)) (fst (snd (hd ms)))
        else if s = [] then [[]] else [] # rx_match_all r (Some (hd s)) (tl s))"
  by (subst rx_match_all.simps; cases s; cases "rx_m r (p, s, None)") (auto simp: rest_len_def)

lemma rx_replace_all_code [code]:
  "rx_replace_all r rep p s =
     (let ms = rx_m r (p, s, None) in
      if ms = [] then (if s = [] then [] else hd s # rx_replace_all r rep (Some (hd s)) (tl s))
      else if rest_len (hd ms) < length s
        then rep @ rx_replace_all r rep (fst (hd ms)) (fst (snd (hd ms)))
        else if s = [] then rep else rep @ hd s # rx_replace_all r rep (Some (hd s)) (tl s))"
  by (subst rx_replace_all.simps; cases s; cases "rx_m r (p, s, None)") (auto simp: rest_len_def)


lemma round_even_div:
  assumes "0 < d"
  shows "round_even (of_int n / of_int d) = round_even_div n d"
proof -
  have f: "\<lfloor>(of_int n / of_int d :: rat)\<rfloor> = n div d"
    by (rule floor_divide_of_int_eq)
  have "(of_int n :: rat) = of_int (d * (n div d) + n mod d)"
    by simp
  then have "(of_int n :: rat) = of_int d * of_int (n div d) + of_int (n mod d)"
    by (simp only: of_int_add of_int_mult)
  then have r: "(of_int n / of_int d :: rat) - of_int (n div d) = of_int (n mod d) / of_int d"
    using assms by (simp add: field_simps)
  have lt: "(of_int (n mod d) / of_int d < (1 / 2 :: rat)) = (2 * (n mod d) < d)"
  proof -
    have "(of_int (n mod d) / of_int d < (1 / 2 :: rat)) = ((of_int (2 * (n mod d)) :: rat) < of_int d)"
      using assms by (simp add: field_simps)
    then show ?thesis by (simp only: of_int_less_iff)
  qed
  have gt: "((1 / 2 :: rat) < of_int (n mod d) / of_int d) = (d < 2 * (n mod d))"
  proof -
    have "((1 / 2 :: rat) < of_int (n mod d) / of_int d) = ((of_int d :: rat) < of_int (2 * (n mod d)))"
      using assms by (simp add: field_simps)
    then show ?thesis by (simp only: of_int_less_iff)
  qed
  show ?thesis
    unfolding round_even_def round_even_div_def Let_def f r lt gt ..
qed

lemma ilog2_code [code]:
  "ilog2 x =
     (let (p, q) = quotient_of x; e = bitlen p - bitlen q in
      if (if 0 \<le> e then 2 ^ nat e * q \<le> p else q \<le> p * 2 ^ nat (- e)) then e else e - 1)"
proof -
  obtain p q where pq: "quotient_of x = (p, q)"
    by (cases "quotient_of x")
  have q: "0 < q"
    using quotient_of_denom_pos [OF pq] .
  have x: "x = of_int p / of_int q"
    using quotient_of_div [OF pq] .
  define e where "e = bitlen p - bitlen q"
  have "(2 powi e \<le> x) = (if 0 \<le> e then 2 ^ nat e * q \<le> p else q \<le> p * 2 ^ nat (- e))"
  proof (cases "0 \<le> e")
    case True
    have "(2 powi e \<le> x) = ((of_int (2 ^ nat e * q) :: rat) \<le> of_int p)"
      using True q by (simp add: x power_int_def field_simps)
    then show ?thesis
      using True by (simp only: of_int_le_iff if_True)
  next
    case False
    have "(2 powi e \<le> x) = ((of_int q :: rat) \<le> of_int (p * 2 ^ nat (- e)))"
      using False q by (simp add: x power_int_def field_simps)
    then show ?thesis
      using False by (simp only: of_int_le_iff if_False)
  qed
  then show ?thesis
    by (simp add: ilog2_def pq e_def Let_def)
qed

lemma fl_code [code]:
  "fl x =
     (let (p, q) = quotient_of x in
      if p = 0 then 0
      else if p < 0
        then (let u = 2 powi (ilog2 \<bar>x\<bar> - 52) in sgn x * of_int (round_even (\<bar>x\<bar> / u)) * u)
      else
        let k = 52 - ilog2 x in
        if 0 \<le> k then Fract (round_even_div (p * 2 ^ nat k) q) (2 ^ nat k)
        else of_int (round_even_div p (q * 2 ^ nat (- k)) * 2 ^ nat (- k)))"
proof -
  obtain p q where pq: "quotient_of x = (p, q)"
    by (cases "quotient_of x")
  have q: "0 < q"
    using quotient_of_denom_pos [OF pq] .
  have x: "x = of_int p / of_int q"
    using quotient_of_div [OF pq] .
  consider "p = 0" | "p < 0" | "0 < p" by linarith
  then show ?thesis
  proof cases
    case 1
    then show ?thesis by (simp add: pq x fl_def)
  next
    case 2
    then have "x \<noteq> 0" using q by (simp add: x)
    then show ?thesis using 2 by (simp add: pq fl_def)
  next
    case 3
    then have pos: "0 < x" using q by (simp add: x)
    define k where "k = 52 - ilog2 x"
    have u: "ilog2 x - 52 = - k" by (simp add: k_def)
    have flx: "fl x = of_int (round_even (x / 2 powi (- k))) * 2 powi (- k)"
      using pos by (simp add: fl_def Let_def u)
    show ?thesis
    proof (cases "0 \<le> k")
      case True
      have pw: "(2::rat) powi (- k) = 1 / 2 ^ nat k"
        using True by (simp add: power_int_def field_simps)
      have "x / 2 powi (- k) = of_int (p * 2 ^ nat k) / of_int q"
        by (simp add: pw x)
      then have "round_even (x / 2 powi (- k)) = round_even_div (p * 2 ^ nat k) q"
        by (simp only: round_even_div [OF q])
      then have "fl x = Fract (round_even_div (p * 2 ^ nat k) q) (2 ^ nat k)"
        by (simp add: flx pw Fract_of_int_quotient)
      then show ?thesis
        using 3 True by (simp add: pq k_def [symmetric] Let_def)
    next
      case False
      have pw: "(2::rat) powi (- k) = 2 ^ nat (- k)"
        using False by (simp add: power_int_def)
      have qq: "0 < q * 2 ^ nat (- k)"
        using q by simp
      have "x / 2 powi (- k) = of_int p / of_int (q * 2 ^ nat (- k))"
        by (simp add: pw x)
      then have "round_even (x / 2 powi (- k)) = round_even_div p (q * 2 ^ nat (- k))"
        by (simp only: round_even_div [OF qq])
      then have "fl x = of_int (round_even_div p (q * 2 ^ nat (- k)) * 2 ^ nat (- k))"
        by (simp add: flx pw)
      then show ?thesis
        using 3 False by (simp add: pq k_def [symmetric] Let_def)
    qed
  qed
qed


section \<open>Rounding\<close>


lemma round_even_nonneg: "0 \<le> y \<Longrightarrow> 0 \<le> round_even y"
  by (auto simp: round_even_def Let_def)

lemma round_even_upper: "of_int (round_even y) \<le> y + 1 / 2"
proof -
  have "of_int \<lfloor>y\<rfloor> \<le> y" by simp
  then show ?thesis
    by (auto simp: round_even_def Let_def) linarith+
qed

lemma ilog2_le:
  assumes "0 < x"
  shows "2 powi (ilog2 x) \<le> x"
proof -
  obtain p q where pq: "quotient_of x = (p, q)"
    by (cases "quotient_of x")
  have q: "0 < q"
    using quotient_of_denom_pos [OF pq] .
  have x: "x = of_int p / of_int q"
    using quotient_of_div [OF pq] .
  have p: "0 < p"
    using assms q x by (simp add: zero_less_divide_iff)
  define e where "e = bitlen p - bitlen q"
  have bp: "1 \<le> bitlen p"
    using p bitlen_eq_zero_iff [of p] bitlen_nonneg [of p] by linarith
  have lo: "(2::rat) ^ nat (bitlen p - 1) \<le> of_int p"
  proof -
    have "(2::int) ^ nat (bitlen p - 1) \<le> p"
      using bitlen_bounds [OF p] by simp
    then have "(of_int ((2::int) ^ nat (bitlen p - 1)) :: rat) \<le> of_int p"
      by (simp only: of_int_le_iff)
    then show ?thesis by simp
  qed
  have hi: "(of_int q :: rat) \<le> 2 ^ nat (bitlen q)"
  proof -
    have "q \<le> (2::int) ^ nat (bitlen q)"
      using bitlen_bounds [OF q] by simp
    then have "(of_int q :: rat) \<le> of_int ((2::int) ^ nat (bitlen q))"
      by (simp only: of_int_le_iff)
    then show ?thesis by simp
  qed
  have "e - 1 = (bitlen p - 1) - bitlen q"
    by (simp add: e_def)
  then have "(2::rat) powi (e - 1) = 2 powi ((bitlen p - 1) - bitlen q)"
    by (rule arg_cong)
  also have "\<dots> = 2 powi (bitlen p - 1) / 2 powi (bitlen q)"
    by (rule power_int_diff) simp
  also have "\<dots> = 2 ^ nat (bitlen p - 1) / 2 ^ nat (bitlen q)"
    using bp bitlen_nonneg [of q] by (simp add: power_int_def)
  also have "\<dots> \<le> of_int p / of_int q"
    using lo hi p q by (intro frac_le) auto
  finally have low: "2 powi (e - 1) \<le> x"
    using x by simp
  show ?thesis
    using low by (simp add: ilog2_def pq e_def Let_def)
qed

lemma fl_nonneg: "0 \<le> x \<Longrightarrow> 0 \<le> fl x"
  by (auto simp: fl_def Let_def sgn_if intro!: mult_nonneg_nonneg round_even_nonneg divide_nonneg_pos)

lemma fl_upper:
  assumes "0 \<le> x"
  shows "fl x \<le> x * (1 + 1 / 2 ^ 53)"
proof (cases "x = 0")
  case True
  then show ?thesis by (simp add: fl_def)
next
  case False
  with assms have pos: "0 < x" by simp
  define u :: rat where "u = 2 powi (ilog2 x - 52)"
  have u_pos: "0 < u" by (simp add: u_def)
  have "u = 2 powi (ilog2 x) / 2 ^ 52"
    by (simp add: u_def power_int_diff)
  then have u_le: "u \<le> x / 2 ^ 52"
    using ilog2_le [OF pos] by (simp add: divide_right_mono)
  have "fl x = of_int (round_even (x / u)) * u"
    using pos by (simp add: fl_def u_def Let_def)
  also have "\<dots> \<le> (x / u + 1 / 2) * u"
    using round_even_upper [of "x / u"] u_pos by (simp add: mult_right_mono)
  also have "\<dots> = x + u / 2"
    using u_pos by (simp add: field_simps)
  also have "\<dots> \<le> x + x / 2 ^ 52 / 2"
    using u_le by simp
  also have "\<dots> = x * (1 + 1 / 2 ^ 53)"
    by (simp add: field_simps)
  finally show ?thesis .
qed

lemma Math_round_nonneg: "0 \<le> x \<Longrightarrow> 0 \<le> Math_round x"
  by (simp add: Math_round_def)


lemma fl_upper_eps: "0 \<le> x \<Longrightarrow> fl x \<le> x * fl_eps"
  unfolding fl_eps_def by (rule fl_upper)

lemma fl_eps_pos: "0 < fl_eps"
  by (simp add: fl_eps_def)

lemma fmul_bounds:
  assumes "0 \<le> x" "x \<le> X" "0 \<le> y" "y \<le> Y"
  shows "0 \<le> fmul x y \<and> fmul x y \<le> X * Y * fl_eps"
proof -
  have xy: "0 \<le> x * y" using assms by simp
  have "x * y \<le> X * Y" using assms by (intro mult_mono) auto
  then have "x * y * fl_eps \<le> X * Y * fl_eps"
    using fl_eps_pos by (simp add: mult_right_mono)
  then show ?thesis
    using fl_nonneg [OF xy] fl_upper_eps [OF xy] by (simp add: fmul_def)
qed

lemma fadd_bounds:
  assumes "0 \<le> x" "x \<le> X" "0 \<le> y" "y \<le> Y"
  shows "0 \<le> fadd x y \<and> fadd x y \<le> (X + Y) * fl_eps"
proof -
  have xy: "0 \<le> x + y" using assms by simp
  have "x + y \<le> X + Y" using assms by simp
  then have "(x + y) * fl_eps \<le> (X + Y) * fl_eps"
    using fl_eps_pos by (simp add: mult_right_mono)
  then show ?thesis
    using fl_nonneg [OF xy] fl_upper_eps [OF xy] by (simp add: fadd_def)
qed

lemma weight_bounds:
  "0 \<le> weight_keywords \<and> weight_keywords \<le> 2 / 5 * fl_eps"
  "0 \<le> weight_structure \<and> weight_structure \<le> 3 / 10 * fl_eps"
  "0 \<le> weight_contacts \<and> weight_contacts \<le> 3 / 20 * fl_eps"
  "0 \<le> weight_experience \<and> weight_experience \<le> 3 / 20 * fl_eps"
  using fl_nonneg [of "40 / 100"] fl_upper_eps [of "40 / 100"]
    fl_nonneg [of "30 / 100"] fl_upper_eps [of "30 / 100"]
    fl_nonneg [of "15 / 100"] fl_upper_eps [of "15 / 100"]
  by (simp_all add: weight_keywords_def weight_structure_def weight_contacts_def
      weight_experience_def)

lemma weighted_sum_bounds:
  fixes k s c e :: int
  assumes "0 \<le> k" "k \<le> 100" "0 \<le> s" "s \<le> 100" "0 \<le> c" "c \<le> 100" "0 \<le> e" "e \<le> 100"
  shows "0 \<le> Math_round
           (fadd (fadd (fadd (fmul (of_int k) weight_keywords) (fmul (of_int s) weight_structure))
                       (fmul (of_int c) weight_contacts))
                 (fmul (of_int e) weight_experience))
       \<and> Math_round
           (fadd (fadd (fadd (fmul (of_int k) weight_keywords) (fmul (of_int s) weight_structure))
                       (fmul (of_int c) weight_contacts))
                 (fmul (of_int e) weight_experience)) \<le> 100"
proof -
  define a where "a = fmul (of_int k) weight_keywords"
  define b where "b = fmul (of_int s) weight_structure"
  define c' where "c' = fmul (of_int c) weight_contacts"
  define d where "d = fmul (of_int e) weight_experience"
  have a: "0 \<le> a \<and> a \<le> 100 * (2 / 5 * fl_eps) * fl_eps"
    unfolding a_def using assms weight_bounds(1) by (intro fmul_bounds) auto
  have b: "0 \<le> b \<and> b \<le> 100 * (3 / 10 * fl_eps) * fl_eps"
    unfolding b_def using assms weight_bounds(2) by (intro fmul_bounds) auto
  have c: "0 \<le> c' \<and> c' \<le> 100 * (3 / 20 * fl_eps) * fl_eps"
    unfolding c'_def using assms weight_bounds(3) by (intro fmul_bounds) auto
  have d: "0 \<le> d \<and> d \<le> 100 * (3 / 20 * fl_eps) * fl_eps"
    unfolding d_def using assms weight_bounds(4) by (intro fmul_bounds) auto
  have s1: "0 \<le> fadd a b \<and>
      fadd a b \<le> (100 * (2 / 5 * fl_eps) * fl_eps + 100 * (3 / 10 * fl_eps) * fl_eps) * fl_eps"
    using a b by (intro fadd_bounds) auto
  have s2: "0 \<le> fadd (fadd a b) c' \<and>
      fadd (fadd a b) c' \<le>
        ((100 * (2 / 5 * fl_eps) * fl_eps + 100 * (3 / 10 * fl_eps) * fl_eps) * fl_eps
          + 100 * (3 / 20 * fl_eps) * fl_eps) * fl_eps"
    using s1 c by (intro fadd_bounds) auto
  have s3: "0 \<le> fadd (fadd (fadd a b) c') d \<and>
      fadd (fadd (fadd a b) c') d \<le>
        (((100 * (2 / 5 * fl_eps) * fl_eps + 100 * (3 / 10 * fl_eps) * fl_eps) * fl_eps
          + 100 * (3 / 20 * fl_eps) * fl_eps) * fl_eps + 100 * (3 / 20 * fl_eps) * fl_eps) * fl_eps"
    using s2 d by (intro fadd_bounds) auto
  have num: "(((100 * (2 / 5 * fl_eps) * fl_eps + 100 * (3 / 10 * fl_eps) * fl_eps) * fl_eps
          + 100 * (3 / 20 * fl_eps) * fl_eps) * fl_eps + 100 * (3 / 20 * fl_eps) * fl_eps) * fl_eps
        < 100 + 1 / 2"
    by code_simp
  have up: "fadd (fadd (fadd a b) c') d < 100 + 1 / 2"
    using s3 num by linarith
  have "Math_round (fadd (fadd (fadd a b) c') d) \<le> 100"
  proof -
    have "fadd (fadd (fadd a b) c') d + 1 / 2 < 101" using up by simp
    then have "\<lfloor>fadd (fadd (fadd a b) c') d + 1 / 2\<rfloor> < 101"
      by (simp add: floor_less_iff)
    then show ?thesis by (simp add: Math_round_def)
  qed
  moreover have "0 \<le> Math_round (fadd (fadd (fadd a b) c') d)"
    using s3 by (simp add: Math_round_nonneg)
  ultimately show ?thesis
    by (simp add: a_def b_def c'_def d_def)
qed


lemma round_even_lower: "y - 1 / 2 \<le> of_int (round_even y)"
proof -
  have "y < of_int \<lfloor>y\<rfloor> + 1" by linarith
  then show ?thesis
    by (auto simp: round_even_def Let_def)
qed

lemma fl_lower:
  assumes "0 \<le> x"
  shows "x * (1 - 1 / 2 ^ 53) \<le> fl x"
proof (cases "x = 0")
  case True
  then show ?thesis by (simp add: fl_def)
next
  case False
  with assms have pos: "0 < x" by simp
  define u :: rat where "u = 2 powi (ilog2 x - 52)"
  have u_pos: "0 < u" by (simp add: u_def)
  have "u = 2 powi (ilog2 x) / 2 ^ 52"
    by (simp add: u_def power_int_diff)
  then have u_le: "u \<le> x / 2 ^ 52"
    using ilog2_le [OF pos] by (simp add: divide_right_mono)
  have "x * (1 - 1 / 2 ^ 53) = x - x / 2 ^ 52 / 2"
    by (simp add: field_simps)
  also have "\<dots> \<le> x - u / 2"
    using u_le by simp
  also have "\<dots> = (x / u - 1 / 2) * u"
    using u_pos by (simp add: field_simps)
  also have "\<dots> \<le> of_int (round_even (x / u)) * u"
    using round_even_lower [of "x / u"] u_pos by (simp add: mult_right_mono)
  also have "\<dots> = fl x"
    using pos by (simp add: fl_def u_def Let_def)
  finally show ?thesis .
qed

text \<open>
  The percentage computed on JavaScript numbers differs from the exact percentage by less
  than \<open>2 ^ -45\<close>.
\<close>

lemma percent_error:
  assumes "0 < n" "m \<le> n"
  shows "\<bar>fmul (fdiv (of_nat m) (of_nat n)) 100 - 100 * of_nat m / of_nat n\<bar> \<le> 1 / 2 ^ 45"
proof -
  define q :: rat where "q = of_nat m / of_nat n"
  define q' where "q' = fl q"
  define p' where "p' = fl (q' * 100)"
  have q0: "0 \<le> q" by (simp add: q_def)
  have q1: "q \<le> 1" using assms by (simp add: q_def)
  have q'0: "0 \<le> q'" unfolding q'_def using q0 by (rule fl_nonneg)
  have q'u: "q' \<le> q * (1 + 1 / 2 ^ 53)" unfolding q'_def using q0 by (rule fl_upper)
  have q'l: "q * (1 - 1 / 2 ^ 53) \<le> q'" unfolding q'_def using q0 by (rule fl_lower)
  have h0: "0 \<le> q' * 100" using q'0 by simp
  have p'u: "p' \<le> q' * 100 * (1 + 1 / 2 ^ 53)" unfolding p'_def using h0 by (rule fl_upper)
  have p'l: "q' * 100 * (1 - 1 / 2 ^ 53) \<le> p'" unfolding p'_def using h0 by (rule fl_lower)
  have up: "p' \<le> q * (1 + 1 / 2 ^ 53) * 100 * (1 + 1 / 2 ^ 53)"
  proof -
    have "q' * 100 * (1 + 1 / 2 ^ 53) \<le> q * (1 + 1 / 2 ^ 53) * 100 * (1 + 1 / 2 ^ 53)"
      using q'u by (intro mult_right_mono) simp_all
    then show ?thesis using p'u by linarith
  qed
  have lo: "q * (1 - 1 / 2 ^ 53) * 100 * (1 - 1 / 2 ^ 53) \<le> p'"
  proof -
    have "q * (1 - 1 / 2 ^ 53) * 100 * (1 - 1 / 2 ^ 53) \<le> q' * 100 * (1 - 1 / 2 ^ 53)"
      using q'l by (intro mult_right_mono) simp_all
    then show ?thesis using p'l by linarith
  qed
  have e1: "q * (1 + 1 / 2 ^ 53) * 100 * (1 + 1 / 2 ^ 53) - 100 * q
      = q * (100 * ((1 + 1 / 2 ^ 53) * (1 + 1 / 2 ^ 53) - 1))"
    by (simp add: algebra_simps)
  have e2: "100 * q - q * (1 - 1 / 2 ^ 53) * 100 * (1 - 1 / 2 ^ 53)
      = q * (100 * (1 - (1 - 1 / 2 ^ 53) * (1 - 1 / 2 ^ 53)))"
    by (simp add: algebra_simps)
  have c1: "(0::rat) \<le> 100 * ((1 + 1 / 2 ^ 53) * (1 + 1 / 2 ^ 53) - 1)"
    "(100::rat) * ((1 + 1 / 2 ^ 53) * (1 + 1 / 2 ^ 53) - 1) \<le> 1 / 2 ^ 45"
    by simp_all
  have c2: "(0::rat) \<le> 100 * (1 - (1 - 1 / 2 ^ 53) * (1 - 1 / 2 ^ 53))"
    "(100::rat) * (1 - (1 - 1 / 2 ^ 53) * (1 - 1 / 2 ^ 53)) \<le> 1 / 2 ^ 45"
    by simp_all
  have "q * (100 * ((1 + 1 / 2 ^ 53) * (1 + 1 / 2 ^ 53) - 1))
      \<le> 1 * (100 * ((1 + 1 / 2 ^ 53) * (1 + 1 / 2 ^ 53) - 1))"
    using q1 c1(1) by (rule mult_right_mono)
  then have u1: "p' - 100 * q \<le> 1 / 2 ^ 45"
    using up e1 c1(2) by linarith
  have "q * (100 * (1 - (1 - 1 / 2 ^ 53) * (1 - 1 / 2 ^ 53)))
      \<le> 1 * (100 * (1 - (1 - 1 / 2 ^ 53) * (1 - 1 / 2 ^ 53)))"
    using q1 c2(1) by (rule mult_right_mono)
  then have l1: "100 * q - p' \<le> 1 / 2 ^ 45"
    using lo e2 c2(2) by linarith
  have a: "\<bar>p' - 100 * q\<bar> \<le> 1 / 2 ^ 45"
    using u1 l1 by linarith
  have eq1: "p' = fmul (fdiv (of_nat m) (of_nat n)) 100"
    by (simp add: p'_def q'_def q_def fmul_def fdiv_def)
  have eq2: "100 * q = 100 * of_nat m / of_nat n"
    by (simp add: q_def)
  show ?thesis
    using a unfolding eq1 eq2 .
qed


text \<open>
  So the rounded percentage is the exactly rounded percentage, except that at a tie (an
  exact percentage of the form \<open>k + 1/2\<close>) it can be one lower.
\<close>

lemma percent_round:
  assumes n: "0 < n" and mn: "m \<le> n" and small: "n < 2 ^ 44"
  shows "((200 * m + n) mod (2 * n) \<noteq> 0 \<longrightarrow>
           Math_round (fmul (fdiv (of_nat m) (of_nat n)) 100)
             = Math_round (100 * of_nat m / of_nat n))
       \<and> (Math_round (fmul (fdiv (of_nat m) (of_nat n)) 100)
             = Math_round (100 * of_nat m / of_nat n)
          \<or> Math_round (fmul (fdiv (of_nat m) (of_nat n)) 100)
             = Math_round (100 * of_nat m / of_nat n) - 1)"
proof -
  define x :: rat where "x = 100 * of_nat m / of_nat n"
  define p' where "p' = fmul (fdiv (of_nat m) (of_nat n)) 100"
  define K :: int where "K = 200 * int m + int n"
  define D :: int where "D = 2 * int n"
  define k where "k = K div D"
  define r where "r = K mod D"
  have D: "0 < D" using n by (simp add: D_def)
  have err: "\<bar>p' - x\<bar> \<le> 1 / 2 ^ 45"
    unfolding p'_def x_def using n mn by (rule percent_error)
  have half: "x + 1 / 2 = of_int K / of_int D"
    using n by (simp add: x_def K_def D_def field_simps)
  have "(of_int K :: rat) = of_int (D * k + r)"
    by (simp add: k_def r_def)
  then have split: "x + 1 / 2 = of_int k + of_int r / of_int D"
    using D by (simp add: half field_simps)
  have r0: "0 \<le> r" and r1: "r < D"
    using D by (simp_all add: r_def)
  have exact: "Math_round x = k"
    unfolding Math_round_def half k_def by (rule floor_divide_of_int_eq)
  have Dsmall: "(of_int D :: rat) < 2 ^ 45"
  proof -
    have "int n < 2 ^ 44"
      using small by (metis of_nat_less_iff of_nat_numeral of_nat_power)
    then have "D < 2 ^ 45" by (simp add: D_def)
    then have "(of_int D :: rat) < of_int (2 ^ 45)" by (simp only: of_int_less_iff)
    then show ?thesis by simp
  qed
  have inv: "(1 :: rat) / 2 ^ 45 < 1 / of_int D"
    using D Dsmall by (simp add: field_simps)
  have notie: "\<lfloor>p' + 1 / 2\<rfloor> = k" if "r \<noteq> 0"
  proof -
    have "1 \<le> r" "r \<le> D - 1" using that r0 r1 by simp_all
    then have "(1 :: rat) \<le> of_int r" "(of_int r :: rat) \<le> of_int D - 1"
      by (metis of_int_1 of_int_le_iff, metis of_int_1 of_int_diff of_int_le_iff)
    then have "(1 :: rat) / of_int D \<le> of_int r / of_int D"
      "(of_int r :: rat) / of_int D \<le> 1 - 1 / of_int D"
      using D by (simp_all add: field_simps)
    then have "of_int k \<le> p' + 1 / 2" "p' + 1 / 2 < of_int k + 1"
      using err split inv by linarith+
    then show ?thesis by (simp add: floor_unique)
  qed
  have tie: "\<lfloor>p' + 1 / 2\<rfloor> = k \<or> \<lfloor>p' + 1 / 2\<rfloor> = k - 1" if "r = 0"
  proof -
    have xk: "x + 1 / 2 = of_int k" using split that by simp
    have small': "(1 :: rat) / 2 ^ 45 < 1" by simp
    show ?thesis
    proof (cases "of_int k \<le> p' + 1 / 2")
      case True
      moreover have "p' + 1 / 2 < of_int k + 1" using err xk small' by linarith
      ultimately show ?thesis by (simp add: floor_unique)
    next
      case False
      have lo: "of_int k - 1 \<le> p' + 1 / 2"
        using err xk small' by linarith
      have hi: "p' + 1 / 2 < of_int k"
        using False by simp
      have "\<lfloor>p' + 1 / 2\<rfloor> = k - 1"
        using lo hi by (intro floor_unique) simp_all
      then show ?thesis by simp
    qed
  qed
  have rmod: "(r \<noteq> 0) = ((200 * m + n) mod (2 * n) \<noteq> 0)"
  proof -
    have "r = int ((200 * m + n) mod (2 * n))"
      unfolding r_def K_def D_def by (simp add: zmod_int)
    then show ?thesis by simp
  qed
  show ?thesis
    using notie tie rmod exact
    unfolding Math_round_def [of p'] p'_def [symmetric] x_def [symmetric]
    by (cases "r = 0") (auto simp: Math_round_def)
qed

section \<open>What a match leaves of the input\<close>

lemma star_iter_nonempty: "star_iter f st \<noteq> []"
  by (subst star_iter.simps) simp

lemma star_iter_rest:
  "(\<And>a b. b \<in> set (f a) \<Longrightarrow>
      set (fst (snd b)) \<subseteq> set (fst (snd a)) \<and> rest_len b \<le> rest_len a) \<Longrightarrow>
   st' \<in> set (star_iter f st) \<Longrightarrow>
   set (fst (snd st')) \<subseteq> set (fst (snd st)) \<and> rest_len st' \<le> rest_len st"
proof (induction f st arbitrary: st' rule: star_iter.induct)
  case (1 f st)
  note step = "1.prems"(1)
  from "1.prems"(2) have
    "st' = st \<or> (\<exists>x \<in> set (filter (\<lambda>y. rest_len y < rest_len st) (f st)). st' \<in> set (star_iter f x))"
    by (subst (asm) star_iter.simps) auto
  then show ?case
  proof
    assume "st' = st"
    then show ?thesis by simp
  next
    assume "\<exists>x \<in> set (filter (\<lambda>y. rest_len y < rest_len st) (f st)). st' \<in> set (star_iter f x)"
    then obtain x where x: "x \<in> set (filter (\<lambda>y. rest_len y < rest_len st) (f st))"
      and st': "st' \<in> set (star_iter f x)"
      by blast
    have a: "set (fst (snd st')) \<subseteq> set (fst (snd x)) \<and> rest_len st' \<le> rest_len x"
      using "1.IH" [OF x step st'] .
    have "x \<in> set (f st)"
      using x by simp
    then have b: "set (fst (snd x)) \<subseteq> set (fst (snd st)) \<and> rest_len x \<le> rest_len st"
      by (rule step)
    show ?thesis using a b by auto
  qed
qed

lemma rx_m_rest:
  "st' \<in> set (rx_m r st) \<Longrightarrow>
     set (fst (snd st')) \<subseteq> set (fst (snd st)) \<and> rest_len st' \<le> rest_len st"
proof (induction r arbitrary: st st')
  case Eps
  then show ?case by simp
next
  case (Cls rs)
  then show ?case
    by (cases st) (auto simp: rest_len_def split: list.splits if_splits)
next
  case (Seq a b)
  from Seq.prems obtain m where m: "m \<in> set (rx_m a st)" and st': "st' \<in> set (rx_m b m)"
    by auto
  show ?case
    using Seq.IH(1) [OF m] Seq.IH(2) [OF st'] by auto
next
  case (Alt a b)
  from Alt.prems have "st' \<in> set (rx_m a st) \<or> st' \<in> set (rx_m b st)"
    by simp
  then show ?case
    using Alt.IH by blast
next
  case (Star a)
  have "st' \<in> set (star_iter (rx_m a) st)"
    using Star.prems by simp
  then show ?case
    using Star.IH by (rule star_iter_rest [rotated 1])
next
  case (Grp a)
  obtain p s g where st: "st = (p, s, g)" by (cases st)
  from Grp.prems obtain m where m: "m \<in> set (rx_m a st)"
    and st': "fst (snd st') = fst (snd m)"
    by (auto simp: st)
  show ?case
    using Grp.IH [OF m] st' by (simp add: rest_len_def)
next
  case Bol
  then show ?case by (cases st) (auto split: if_splits)
next
  case Eol
  then show ?case by (cases st) (auto split: if_splits)
next
  case WordB
  then show ?case by (cases st) (auto split: if_splits)
qed

lemma plus_cls_first:
  "rx_m (Plus (Cls rs)) (p, s, g) =
     (case s of [] \<Rightarrow> []
      | c # cs \<Rightarrow> if in_cls rs c then star_iter (rx_m (Cls rs)) (Some c, cs, g) else [])"
  by (simp add: Plus_def rx_atleast_def split: list.splits)

lemma plus_cls_nomatch:
  "rx_m (Plus (Cls rs)) (p, c # cs, g) = [] \<Longrightarrow> \<not> in_cls rs c"
  by (auto simp: plus_cls_first star_iter_nonempty)

lemma plus_cls_consumes:
  assumes "st' \<in> set (rx_m (Plus (Cls rs)) (p, s, g))"
  shows "rest_len st' < length s \<and> set (fst (snd st')) \<subseteq> set s"
proof (cases s)
  case Nil
  with assms show ?thesis by (simp add: plus_cls_first)
next
  case (Cons c cs)
  with assms have "st' \<in> set (rx_m (Star (Cls rs)) (Some c, cs, g))"
    by (auto simp: plus_cls_first split: if_splits)
  from rx_m_rest [OF this] show ?thesis
    by (auto simp: Cons rest_len_def)
qed

section \<open>The normalized text is one line\<close>

lemma replace_ws_units:
  "set (rx_replace_all (Plus (Cls ws_cls)) [32] p s)
     \<subseteq> insert 32 {c \<in> set s. \<not> in_cls ws_cls c}"
proof (induction "Plus (Cls ws_cls)" "[32::int]" p s rule: rx_replace_all.induct)
  case (1 p s)
  show ?case
  proof (cases "rx_m (Plus (Cls ws_cls)) (p, s, None)")
    case Nil
    show ?thesis
    proof (cases s)
      case empty: Nil
      have "rx_replace_all (Plus (Cls ws_cls)) [32] p s = []"
        using Nil by (subst rx_replace_all.simps) (simp add: empty)
      then show ?thesis by simp
    next
      case (Cons c cs)
      have c: "\<not> in_cls ws_cls c"
        using Nil plus_cls_nomatch unfolding Cons by blast
      have ih: "set (rx_replace_all (Plus (Cls ws_cls)) [32] (Some c) cs)
          \<subseteq> insert 32 {c \<in> set cs. \<not> in_cls ws_cls c}"
        using "1.hyps"(1) [OF Nil Cons] .
      have "rx_replace_all (Plus (Cls ws_cls)) [32] p s =
          c # rx_replace_all (Plus (Cls ws_cls)) [32] (Some c) cs"
        using Nil by (subst rx_replace_all.simps) (simp add: Cons)
      then show ?thesis
        using c ih Cons by auto
    qed
  next
    case (Cons x xs)
    obtain p' s' g where x: "x = (p', s', g)" by (cases x)
    have "x \<in> set (rx_m (Plus (Cls ws_cls)) (p, s, None))"
      using Cons by simp
    from plus_cls_consumes [OF this]
    have less: "length s' < length s" and sub: "set s' \<subseteq> set s"
      by (simp_all add: x rest_len_def)
    have ih: "set (rx_replace_all (Plus (Cls ws_cls)) [32] p' s')
        \<subseteq> insert 32 {c \<in> set s'. \<not> in_cls ws_cls c}"
      using "1.hyps"(2) [OF Cons x [symmetric] refl less] .
    have m: "rx_m (Plus (Cls ws_cls)) (p, s, None) = (p', s', g) # xs"
      unfolding Cons x ..
    have "rx_replace_all (Plus (Cls ws_cls)) [32] p s =
        [32] @ rx_replace_all (Plus (Cls ws_cls)) [32] p' s'"
      by (subst rx_replace_all.simps, subst m)
        (simp only: list.case prod.case less if_True)
    then show ?thesis
      using ih sub by auto
  qed
qed

lemma str_trim_units: "set (str_trim s) \<subseteq> set s"
  by (auto simp: str_trim_def dest!: set_dropWhileD)

lemma normalizeText_no_newline: "10 \<notin> set (normalizeText text)"
proof
  assume "10 \<in> set (normalizeText text)"
  then have "10 \<in> set (rx_replace_all (Plus (Cls ws_cls)) [32] None text)"
    using str_trim_units unfolding normalizeText_def by blast
  then have "\<not> in_cls ws_cls 10"
    using replace_ws_units [of None "text"] by auto
  then show False
    by (simp add: ws_cls_def)
qed

lemma str_split_no_separator: "sep \<notin> set s \<Longrightarrow> str_split sep s = [s]"
  by (induction s) auto

lemma normalizeText_one_line: "str_split 10 (normalizeText text) = [normalizeText text]"
  by (rule str_split_no_separator) (rule normalizeText_no_newline)

lemma section_loop_one_line: "section_loop lc own False [line] = []"
  by (simp add: Let_def)

lemma extractExperienceSection_normalized:
  "extractExperienceSection lc (normalizeText text) = []"
  by (simp add: extractExperienceSection_def normalizeText_one_line Let_def)

lemma extractEducationSection_normalized:
  "extractEducationSection lc (normalizeText text) = []"
  by (simp add: extractEducationSection_def normalizeText_one_line Let_def)

lemma parseResume_fields:
  "name (parseResume lc text) = extractName (normalizeText text)"
  "email (parseResume lc text) = extractEmail (normalizeText text)"
  "phone (parseResume lc text) = extractPhone (normalizeText text)"
  "position (parseResume lc text) = extractPosition lc (normalizeText text)"
  "skills (parseResume lc text) = extractSkills lc (normalizeText text)"
  "experience (parseResume lc text) = []"
  "education (parseResume lc text) = []"
  "sections (parseResume lc text) = detectSections lc (normalizeText text)"
  "rawText (parseResume lc text) = normalizeText text"
  by (simp_all add: parseResume_def Let_def extractExperienceSection_normalized
      extractEducationSection_normalized)

section \<open>The position is never found\<close>

lemma extractPosition_keywords_None: "extractPosition_keywords line lowerLine kws = None"
  by (induction kws) (simp_all add: str_split_limit_def Let_def)

lemma extractPosition_lines_None: "extractPosition_lines lc lines = None"
  by (induction lines) (simp_all add: extractPosition_keywords_None)

lemma extractPosition_None: "extractPosition lc text = None"
  by (simp add: extractPosition_def extractPosition_lines_None)

section \<open>The fields of the result\<close>

lemma analyzeResume_fields:
  "parsedResume (analyzeResume lc resumeText vacancyText) = parseResume lc resumeText"
  "b_keywords (breakdown (analyzeResume lc resumeText vacancyText)) =
     fst (analyzeKeywords lc (parseResume lc resumeText)
            (extractVacancyRequirements lc vacancyText))"
  "b_structure (breakdown (analyzeResume lc resumeText vacancyText)) =
     analyzeStructure (parseResume lc resumeText)"
  "b_contacts (breakdown (analyzeResume lc resumeText vacancyText)) =
     analyzeContacts (parseResume lc resumeText)"
  "b_experience (breakdown (analyzeResume lc resumeText vacancyText)) =
     analyzeExperience lc (parseResume lc resumeText) (extractVacancyRequirements lc vacancyText)"
  "score (analyzeResume lc resumeText vacancyText) =
     totalScore (breakdown (analyzeResume lc resumeText vacancyText))"
  "matchedKeywords (analyzeResume lc resumeText vacancyText) =
     fst (snd (analyzeKeywords lc (parseResume lc resumeText)
                 (extractVacancyRequirements lc vacancyText)))"
  "missingKeywords (analyzeResume lc resumeText vacancyText) =
     snd (snd (analyzeKeywords lc (parseResume lc resumeText)
                 (extractVacancyRequirements lc vacancyText)))"
  "recommendations (analyzeResume lc resumeText vacancyText) =
     generateRecommendations (breakdown (analyzeResume lc resumeText vacancyText))
       (parseResume lc resumeText) (extractVacancyRequirements lc vacancyText)
       (matchedKeywords (analyzeResume lc resumeText vacancyText))
       (missingKeywords (analyzeResume lc resumeText vacancyText))"
  by (simp_all add: analyzeResume_def Let_def split: prod.splits)

lemma analyzeExperience_parsed:
  "analyzeExperience lc (parseResume lc resumeText) requirements = 0"
  by (simp add: analyzeExperience_def parseResume_fields)


section \<open>Claims on the parsed resume\<close>

text \<open>
  Claim C3.  For every pair of inputs the experience text and the education text of the
  parsed resume are empty and the experience score is 0: the text that the line-based
  extraction receives has been normalized, so it splits into exactly one line, and the line
  that switches the extraction on is itself skipped.
\<close>

theorem C3_experience_always_empty:
  "str_split 10 (rawText (parsedResume (analyzeResume lc resumeText vacancyText))) =
     [rawText (parsedResume (analyzeResume lc resumeText vacancyText))]
   \<and> experience (parsedResume (analyzeResume lc resumeText vacancyText)) = []
   \<and> education (parsedResume (analyzeResume lc resumeText vacancyText)) = []
   \<and> b_experience (breakdown (analyzeResume lc resumeText vacancyText)) = 0"
  by (simp add: analyzeResume_fields parseResume_fields normalizeText_one_line
      analyzeExperience_parsed)

theorem C3_experience_always_empty_witness:
  "experience (parsedResume (analyzeResume toLowerCase_ru block_resume scenario_vacancy)) = []
   \<and> education (parsedResume (analyzeResume toLowerCase_ru block_resume scenario_vacancy)) = []
   \<and> b_experience (breakdown (analyzeResume toLowerCase_ru block_resume scenario_vacancy)) = 0"
  using C3_experience_always_empty [of toLowerCase_ru block_resume scenario_vacancy] by simp

text \<open>
  Claim C8.  The claim says that a line with a position label and a colon gives the trimmed
  text after the first colon.  The source splits the line with \<^verbatim>\<open>line.split(':', 1)\<close>, which
  returns at most one piece, so \<^verbatim>\<open>parts.length > 1\<close> never holds: for the resume
  "Dolzhnost': Razrabotchik", whose only line contains the first label and a colon, the
  position is undefined.
\<close>

theorem C8_position_failing_input:
  "str_includes (str_trim (toLowerCase_ru (normalizeText position_resume))) (hd positionKeywords)
   \<and> 58 \<in> set (normalizeText position_resume)
   \<and> position (parsedResume (analyzeResume toLowerCase_ru position_resume scenario_vacancy)) = None"
proof -
  have "str_includes (str_trim (toLowerCase_ru (normalizeText position_resume)))
      (hd positionKeywords)"
    by code_simp
  moreover have "58 \<in> set (normalizeText position_resume)"
    by code_simp
  ultimately show ?thesis
    by (simp add: analyzeResume_fields parseResume_fields extractPosition_None)
qed

section \<open>The key word matcher\<close>

lemma partition_fold:
  "fold (\<lambda>requirement (matched, missing).
           if P requirement then (matched @ [requirement], missing)
           else (matched, missing @ [requirement])) reqs (a, b)
   = (a @ filter P reqs, b @ filter (\<lambda>q. \<not> P q) reqs)"
  by (induction reqs arbitrary: a b) simp_all

lemma partitionRequirements_filter:
  "partitionRequirements lc low reqs =
     (filter (\<lambda>q. str_includes low (lc q)) reqs,
      filter (\<lambda>q. \<not> str_includes low (lc q)) reqs)"
  unfolding partitionRequirements_def
  using partition_fold [of "\<lambda>q. str_includes low (lc q)" reqs "[]" "[]"] by simp

lemma analyzeKeywords_filter:
  "analyzeKeywords lc resume requirements =
     (if allRequirements requirements = [] then (100, [], [])
      else
        (min (Math_round
               (fmul (fdiv (of_nat (length (filter (\<lambda>q. str_includes (lc (rawText resume)) (lc q))
                                              (allRequirements requirements))))
                           (of_nat (length (allRequirements requirements))))
                     100))
             100,
         filter (\<lambda>q. str_includes (lc (rawText resume)) (lc q)) (allRequirements requirements),
         take 10 (filter (\<lambda>q. \<not> str_includes (lc (rawText resume)) (lc q))
                    (allRequirements requirements))))"
  by (simp add: analyzeKeywords_def Let_def partitionRequirements_filter)





lemma requirements_length:
  "length (allRequirements (extractVacancyRequirements lc vacancyText)) \<le> 81"
proof -
  define a where "a = length (filter (\<lambda>skill. str_includes (lc vacancyText) (lc skill)) itSkills)"
  define b where "b = length (filter (\<lambda>skill. str_includes (lc vacancyText) (lc skill)) softSkills)"
  define c where "c = length (take 20 (sort_key (\<lambda>(word, freq). - int freq)
      (filter (\<lambda>(word, freq). freq > 1) (fold bump (vacancyWords (lc vacancyText)) []))))"
  have "a \<le> length itSkills"
    unfolding a_def by (rule length_filter_le)
  then have a: "a \<le> 49"
    by (simp add: itSkills_def)
  have "b \<le> length softSkills"
    unfolding b_def by (rule length_filter_le)
  then have b: "b \<le> 12"
    by (simp add: softSkills_def)
  have c: "c \<le> 20"
    unfolding c_def by simp
  have "length (allRequirements (extractVacancyRequirements lc vacancyText)) = a + b + c"
    by (simp add: allRequirements_def extractVacancyRequirements_def Let_def a_def b_def c_def)
  then show ?thesis
    using a b c by linarith
qed

lemma matched_le_requirements:
  "length (fst (snd (analyzeKeywords lc resume requirements)))
     \<le> length (allRequirements requirements)"
  by (simp add: analyzeKeywords_filter)

text \<open>
  The score on JavaScript numbers against the score in exact arithmetic, for a requirement
  list of fewer than \<open>2 ^ 44\<close> entries.
\<close>

lemma keyword_score_exact:
  assumes "allRequirements requirements \<noteq> []"
    and "length (allRequirements requirements) < 2 ^ 44"
  shows "((200 * length (fst (snd (analyzeKeywords lc resume requirements)))
            + length (allRequirements requirements))
          mod (2 * length (allRequirements requirements)) \<noteq> 0
         \<longrightarrow> fst (analyzeKeywords lc resume requirements) =
             keyword_score_spec (length (fst (snd (analyzeKeywords lc resume requirements))))
               (length (allRequirements requirements)))
       \<and> (fst (analyzeKeywords lc resume requirements) =
             keyword_score_spec (length (fst (snd (analyzeKeywords lc resume requirements))))
               (length (allRequirements requirements))
          \<or> fst (analyzeKeywords lc resume requirements) =
             keyword_score_spec (length (fst (snd (analyzeKeywords lc resume requirements))))
               (length (allRequirements requirements)) - 1)"
proof -
  define n where "n = length (allRequirements requirements)"
  define m where "m = length (fst (snd (analyzeKeywords lc resume requirements)))"
  have n: "0 < n" using assms(1) by (simp add: n_def)
  have mn: "m \<le> n" unfolding m_def n_def by (rule matched_le_requirements)
  have small: "n < 2 ^ 44" using assms(2) by (simp add: n_def)
  define x :: rat where "x = 100 * of_nat m / of_nat n"
  define p where "p = fmul (fdiv (of_nat m) (of_nat n)) 100"
  have "x \<le> 100"
    using n mn by (simp add: x_def field_simps)
  then have "x + 1 / 2 < 101" by simp
  then have k100: "Math_round x \<le> 100"
    unfolding Math_round_def by (simp add: floor_less_iff)
  have spec: "keyword_score_spec m n = Math_round x"
    using k100 by (simp add: keyword_score_spec_def x_def mult.commute)
  have code: "fst (analyzeKeywords lc resume requirements) = min (Math_round p) 100"
    using assms(1) by (simp add: analyzeKeywords_filter p_def m_def n_def)
  have pr: "((200 * m + n) mod (2 * n) \<noteq> 0 \<longrightarrow> Math_round p = Math_round x)
      \<and> (Math_round p = Math_round x \<or> Math_round p = Math_round x - 1)"
    unfolding p_def x_def using n mn small by (rule percent_round)
  then have "Math_round p \<le> 100"
    using k100 by auto
  then have code': "fst (analyzeKeywords lc resume requirements) = Math_round p"
    using code by simp
  show ?thesis
    using pr unfolding code' spec m_def [symmetric] n_def [symmetric] .
qed


section \<open>The structure score\<close>

lemma structure_table:
  "structure_float 0 False False = structure_spec 0 False False"
  "structure_float 0 False True = structure_spec 0 False True"
  "structure_float 0 True False = structure_spec 0 True False"
  "structure_float 0 True True = structure_spec 0 True True"
  "structure_float 1 False False = structure_spec 1 False False"
  "structure_float 1 False True = structure_spec 1 False True"
  "structure_float 1 True False = structure_spec 1 True False"
  "structure_float 1 True True = structure_spec 1 True True"
  "structure_float 2 False False = structure_spec 2 False False"
  "structure_float 2 False True = structure_spec 2 False True"
  "structure_float 2 True False = structure_spec 2 True False"
  "structure_float 2 True True = structure_spec 2 True True"
  "structure_float 3 False False = structure_spec 3 False False"
  "structure_float 3 False True = structure_spec 3 False True"
  "structure_float 3 True False = structure_spec 3 True False"
  "structure_float 3 True True = structure_spec 3 True True"
  by code_simp+


lemma structure_float_spec:
  assumes "n \<le> 3"
  shows "structure_float n c l = structure_spec n c l"
proof -
  have n: "n = 0 \<or> n = 1 \<or> n = 2 \<or> n = 3"
    using assms by linarith
  have b: "(c = True \<or> c = False) \<and> (l = True \<or> l = False)"
    by simp
  show ?thesis
    using n b by (elim disjE conjE) (simp_all only: structure_table)
qed

lemma analyzeStructure_float:
  "analyzeStructure resume =
     structure_float (length (filter (\<lambda>s. s \<in> set (sections resume)) expectedSections))
       (ascii ''contacts'' \<in> set (sections resume))
       (5 < length (str_split 10 (rawText resume)))"
  by (simp add: analyzeStructure_def structure_float_def Let_def expectedSections_def)

lemma analyzeStructure_spec:
  "analyzeStructure resume =
     structure_spec (length (filter (\<lambda>s. s \<in> set (sections resume)) expectedSections))
       (ascii ''contacts'' \<in> set (sections resume))
       (5 < length (str_split 10 (rawText resume)))"
proof -
  have "length (filter (\<lambda>s. s \<in> set (sections resume)) expectedSections)
      \<le> length expectedSections"
    by (rule length_filter_le)
  then have "length (filter (\<lambda>s. s \<in> set (sections resume)) expectedSections) \<le> 3"
    by (simp add: expectedSections_def)
  then show ?thesis
    by (simp only: analyzeStructure_float structure_float_spec)
qed

lemma structure_spec_range: "0 \<le> structure_spec n c l \<and> structure_spec n c l \<le> 100"
proof -
  have "(0::rat) \<le> of_nat n / 3 * 70 + (if c then 15 else 0) + (if l then 15 else 0)"
    by simp
  then show ?thesis
    unfolding structure_spec_def using Math_round_nonneg by simp
qed

lemma structure_spec_no_section: "structure_spec 0 False l \<le> 15"
  by (cases l) (simp_all add: structure_spec_def Math_round_def)

lemma detectSections_none:
  assumes "\<not> list_ex (str_includes (lc t)) sectionKeywords"
  shows "detectSections lc t = []"
proof -
  have "filter (\<lambda>(sectionType, kws). list_ex (str_includes (lc t)) kws) standardSections = []"
    using assms by (auto simp: filter_empty_conv list_ex_iff sectionKeywords_def)
  then show ?thesis
    by (simp add: detectSections_def Let_def)
qed

lemma line_bonus_never:
  "\<not> 5 < length (str_split 10 (rawText (parseResume lc resumeText)))"
  by (simp add: parseResume_fields normalizeText_one_line)


section \<open>The range of the scores\<close>

lemma analyzeKeywords_range:
  "0 \<le> fst (analyzeKeywords lc resume requirements)
   \<and> fst (analyzeKeywords lc resume requirements) \<le> 100"
proof (cases "allRequirements requirements = []")
  case True
  then show ?thesis by (simp add: analyzeKeywords_filter)
next
  case False
  have "0 \<le> fmul (fdiv (of_nat m) (of_nat n)) 100" for m n :: nat
    unfolding fmul_def fdiv_def by (intro fl_nonneg mult_nonneg_nonneg) simp_all
  then show ?thesis
    using False by (simp add: analyzeKeywords_filter Math_round_nonneg)
qed

lemma analyzeContacts_range:
  "0 \<le> analyzeContacts resume \<and> analyzeContacts resume \<le> 100"
  by (simp add: analyzeContacts_def Let_def)

lemma analyzeExperience_range:
  "0 \<le> analyzeExperience lc resume requirements
   \<and> analyzeExperience lc resume requirements \<le> 100"
  by (simp add: analyzeExperience_def Let_def)

lemma totalScore_range:
  assumes "0 \<le> b_keywords bd" "b_keywords bd \<le> 100" "0 \<le> b_structure bd" "b_structure bd \<le> 100"
    "0 \<le> b_contacts bd" "b_contacts bd \<le> 100" "0 \<le> b_experience bd" "b_experience bd \<le> 100"
  shows "0 \<le> totalScore bd \<and> totalScore bd \<le> 100"
  unfolding totalScore_def using assms by (rule weighted_sum_bounds)

text \<open>
  Claim C1.  For every pair of input strings the overall score and each of the four scores
  of the breakdown (key words, structure, contacts, experience) are integers between 0 and
  100.
\<close>

theorem C1_scores_in_range:
  "0 \<le> score (analyzeResume lc resumeText vacancyText)
   \<and> score (analyzeResume lc resumeText vacancyText) \<le> 100
   \<and> 0 \<le> b_keywords (breakdown (analyzeResume lc resumeText vacancyText))
   \<and> b_keywords (breakdown (analyzeResume lc resumeText vacancyText)) \<le> 100
   \<and> 0 \<le> b_structure (breakdown (analyzeResume lc resumeText vacancyText))
   \<and> b_structure (breakdown (analyzeResume lc resumeText vacancyText)) \<le> 100
   \<and> 0 \<le> b_contacts (breakdown (analyzeResume lc resumeText vacancyText))
   \<and> b_contacts (breakdown (analyzeResume lc resumeText vacancyText)) \<le> 100
   \<and> 0 \<le> b_experience (breakdown (analyzeResume lc resumeText vacancyText))
   \<and> b_experience (breakdown (analyzeResume lc resumeText vacancyText)) \<le> 100"
proof -
  let ?bd = "breakdown (analyzeResume lc resumeText vacancyText)"
  have k: "0 \<le> b_keywords ?bd \<and> b_keywords ?bd \<le> 100"
    by (simp only: analyzeResume_fields analyzeKeywords_range)
  have s: "0 \<le> b_structure ?bd \<and> b_structure ?bd \<le> 100"
    by (simp only: analyzeResume_fields analyzeStructure_spec structure_spec_range)
  have c: "0 \<le> b_contacts ?bd \<and> b_contacts ?bd \<le> 100"
    by (simp only: analyzeResume_fields analyzeContacts_range)
  have e: "0 \<le> b_experience ?bd \<and> b_experience ?bd \<le> 100"
    by (simp only: analyzeResume_fields analyzeExperience_range)
  have t: "0 \<le> totalScore ?bd \<and> totalScore ?bd \<le> 100"
    using k s c e by (intro totalScore_range) simp_all
  show ?thesis
    using k s c e t by (simp add: analyzeResume_fields(6))
qed

theorem C1_scores_in_range_witness:
  "0 \<le> score (analyzeResume toLowerCase_ru scenario_resume scenario_vacancy)
   \<and> score (analyzeResume toLowerCase_ru scenario_resume scenario_vacancy) \<le> 100
   \<and> 0 \<le> b_keywords (breakdown (analyzeResume toLowerCase_ru scenario_resume scenario_vacancy))
   \<and> b_keywords (breakdown (analyzeResume toLowerCase_ru scenario_resume scenario_vacancy)) \<le> 100
   \<and> 0 \<le> b_structure (breakdown (analyzeResume toLowerCase_ru scenario_resume scenario_vacancy))
   \<and> b_structure (breakdown (analyzeResume toLowerCase_ru scenario_resume scenario_vacancy)) \<le> 100
   \<and> 0 \<le> b_contacts (breakdown (analyzeResume toLowerCase_ru scenario_resume scenario_vacancy))
   \<and> b_contacts (breakdown (analyzeResume toLowerCase_ru scenario_resume scenario_vacancy)) \<le> 100
   \<and> 0 \<le> b_experience (breakdown (analyzeResume toLowerCase_ru scenario_resume scenario_vacancy))
   \<and> b_experience (breakdown (analyzeResume toLowerCase_ru scenario_resume scenario_vacancy)) \<le> 100"
  by (rule C1_scores_in_range)

section \<open>Recommendations\<close>

lemma rule_titles:
  "r \<in> set (keywordsRule bd missing) \<Longrightarrow> title r \<noteq> affirmationTitle"
  "r \<in> set (structureRule bd resume) \<Longrightarrow> title r \<noteq> affirmationTitle"
  "r \<in> set (contactsRule bd resume) \<Longrightarrow> title r \<noteq> affirmationTitle"
  "r \<in> set (experienceRule bd resume) \<Longrightarrow> title r \<noteq> affirmationTitle"
  by (auto simp add: keywordsRule_def structureRule_def contactsRule_def experienceRule_def
      keywordsRecommendation_def structureRecommendation_def contactsRecommendation_def
      describeExperience_def describeExperienceTitle_def expandExperience_def
      affirmationTitle_def Let_def split: if_splits)

lemma experienceRule_empty:
  "experience resume = [] \<Longrightarrow> b_experience bd < 60 \<Longrightarrow>
     experienceRule bd resume = [describeExperience]"
  by (simp add: experienceRule_def)

lemma rule4_fires:
  assumes "experience resume = []" and "b_experience bd < 60"
  shows "generateRecommendations bd resume requirements matched missing =
      keywordsRule bd missing @ structureRule bd resume @ contactsRule bd resume
        @ [describeExperience]"
    and "describeExperience \<in> set (generateRecommendations bd resume requirements matched missing)"
    and "affirmationTitle \<notin>
      title ` set (generateRecommendations bd resume requirements matched missing)"
proof -
  show eq: "generateRecommendations bd resume requirements matched missing =
      keywordsRule bd missing @ structureRule bd resume @ contactsRule bd resume
        @ [describeExperience]"
    by (simp add: generateRecommendations_def Let_def experienceRule_empty [OF assms])
  show "describeExperience \<in> set (generateRecommendations bd resume requirements matched missing)"
    by (simp add: eq)
  have de: "title describeExperience \<noteq> affirmationTitle"
    using rule_titles(4) [of describeExperience bd resume] experienceRule_empty [OF assms]
    by simp
  show "affirmationTitle \<notin>
      title ` set (generateRecommendations bd resume requirements matched missing)"
  proof
    assume "affirmationTitle \<in>
      title ` set (generateRecommendations bd resume requirements matched missing)"
    then obtain r where r: "r \<in> set (generateRecommendations bd resume requirements matched missing)"
      and t: "title r = affirmationTitle"
      by auto
    from r have "r \<in> set (keywordsRule bd missing) \<or> r \<in> set (structureRule bd resume)
        \<or> r \<in> set (contactsRule bd resume) \<or> r = describeExperience"
      unfolding eq by auto
    then show False
      using t de rule_titles(1-3) by blast
  qed
qed

lemma rule1_first:
  assumes "b_keywords bd < 70" and "missing \<noteq> []"
  shows "hd (generateRecommendations bd resume requirements matched missing) =
    keywordsRecommendation missing"
  using assms by (simp add: generateRecommendations_def Let_def keywordsRule_def)

lemma missing_reported:
  "snd (snd (analyzeKeywords lc resume requirements)) =
     take 10 (snd (partitionRequirements lc (lc (rawText resume)) (allRequirements requirements)))"
  by (simp add: analyzeKeywords_filter partitionRequirements_filter)

section \<open>The analyzer on concrete inputs\<close>

lemma breakdown_fields:
  "breakdown (analyzeResume lc resumeText vacancyText) =
     \<lparr>b_keywords = fst (analyzeKeywords lc (parseResume lc resumeText)
                          (extractVacancyRequirements lc vacancyText)),
      b_structure = analyzeStructure (parseResume lc resumeText),
      b_contacts = analyzeContacts (parseResume lc resumeText),
      b_experience = analyzeExperience lc (parseResume lc resumeText)
                       (extractVacancyRequirements lc vacancyText)\<rparr>"
  by (simp add: analyzeResume_def Let_def split: prod.splits)

lemma scenario_parse: "parseResume toLowerCase_ru scenario_resume = scenario_parsed"
  by code_simp

lemma scenario_reqs:
  "extractVacancyRequirements toLowerCase_ru scenario_vacancy = scenario_requirements"
  by code_simp

lemma scenario_keywords:
  "analyzeKeywords toLowerCase_ru scenario_parsed scenario_requirements =
     (100, [ascii ''python'', ascii ''docker'', ascii ''git''], [])"
  by code_simp

lemma scenario_structure: "analyzeStructure scenario_parsed = 23"
  by code_simp

lemma scenario_contacts: "analyzeContacts scenario_parsed = 100"
  by code_simp

lemma scenario_total:
  "totalScore \<lparr>b_keywords = 100, b_structure = 23, b_contacts = 100, b_experience = 0\<rparr> = 62"
  by code_simp

lemma scenario_breakdown:
  "breakdown (analyzeResume toLowerCase_ru scenario_resume scenario_vacancy) =
     \<lparr>b_keywords = 100, b_structure = 23, b_contacts = 100, b_experience = 0\<rparr>"
  using analyzeExperience_parsed [of toLowerCase_ru scenario_resume scenario_requirements]
  by (simp add: breakdown_fields scenario_parse scenario_reqs scenario_keywords
      scenario_structure scenario_contacts)

text \<open>
  Claim C6.  For the resume and the vacancy of the scenario the parsed name is
  "Ivan Ivanov", the parsed e-mail address is "ivan@mail.ru", the matched key words include
  python, docker and git, the contacts score is 100 and the overall score, 62, is at
  least 60.
\<close>

theorem C6_scenario:
  "name (parsedResume (analyzeResume toLowerCase_ru scenario_resume scenario_vacancy))
     = Some ivan_ivanov
   \<and> email (parsedResume (analyzeResume toLowerCase_ru scenario_resume scenario_vacancy))
     = Some (ascii ''ivan@mail.ru'')
   \<and> ascii ''python'' \<in> set (matchedKeywords
        (analyzeResume toLowerCase_ru scenario_resume scenario_vacancy))
   \<and> ascii ''docker'' \<in> set (matchedKeywords
        (analyzeResume toLowerCase_ru scenario_resume scenario_vacancy))
   \<and> ascii ''git'' \<in> set (matchedKeywords
        (analyzeResume toLowerCase_ru scenario_resume scenario_vacancy))
   \<and> b_contacts (breakdown (analyzeResume toLowerCase_ru scenario_resume scenario_vacancy)) = 100
   \<and> score (analyzeResume toLowerCase_ru scenario_resume scenario_vacancy) = 62
   \<and> 60 \<le> score (analyzeResume toLowerCase_ru scenario_resume scenario_vacancy)"
proof -
  let ?res = "analyzeResume toLowerCase_ru scenario_resume scenario_vacancy"
  have p: "parsedResume ?res = scenario_parsed"
    by (simp add: analyzeResume_fields scenario_parse)
  have m: "matchedKeywords ?res = [ascii ''python'', ascii ''docker'', ascii ''git'']"
    by (simp add: analyzeResume_fields scenario_parse scenario_reqs scenario_keywords)
  have s: "score ?res = 62"
    by (simp only: analyzeResume_fields(6) scenario_breakdown scenario_total)
  show ?thesis
    by (simp add: p m s scenario_breakdown scenario_parsed_def)
qed

text \<open>
  Claim C5.  The claim says that the lines after an experience heading, up to the heading
  of another section, are the experience text.  The loop does that on a text that still has
  its lines: for the resume "Opyt raboty", "Razrabotchik Python", "Docker i Git",
  "Obrazovanie", "MGU" it returns the second and the third line.  But \<^verbatim>\<open>parseResume\<close> gives
  the loop the normalized text, whose newlines have become spaces, so the experience text
  of the parsed resume is empty.
\<close>

theorem C5_block_failing_input:
  "extractExperienceSection toLowerCase_ru block_resume = block_expected
   \<and> block_expected \<noteq> []
   \<and> experience (parsedResume (analyzeResume toLowerCase_ru block_resume scenario_vacancy)) = []"
proof -
  have "extractExperienceSection toLowerCase_ru block_resume = block_expected"
    by code_simp
  moreover have "block_expected \<noteq> []"
    by (simp add: block_expected_def)
  ultimately show ?thesis
    by (simp add: analyzeResume_fields parseResume_fields)
qed

text \<open>
  Claim C7.  The claim says that the name is the first match among the first five lines.
  The scan does that on a text that still has its lines, but \<^verbatim>\<open>parseResume\<close> gives it the
  normalized text, which is a single line.  For the resume "ivan@mail.ru", "Ivan Ivanov"
  the second line matches, and the parsed name is undefined; for the resume "Ivan",
  "Ivanov" no line matches, and the parsed name is "Ivan Ivanov".
\<close>

theorem C7_name_failing_input:
  "extractName name_resume = Some ivan_ivanov
   \<and> name (parsedResume (analyzeResume toLowerCase_ru name_resume scenario_vacancy)) = None
   \<and> extractName split_name_resume = None
   \<and> name (parsedResume (analyzeResume toLowerCase_ru split_name_resume scenario_vacancy))
     = Some ivan_ivanov"
proof -
  have "extractName name_resume = Some ivan_ivanov"
    "extractName (normalizeText name_resume) = None"
    "extractName split_name_resume = None"
    "extractName (normalizeText split_name_resume) = Some ivan_ivanov"
    by code_simp+
  then show ?thesis
    by (simp add: analyzeResume_fields parseResume_fields)
qed

text \<open>
  Claim C4.  The claim says that a resume of more than five lines gets 15 points.  The
  source counts the lines of \<^verbatim>\<open>rawText\<close>, which is the normalized text and has one line,
  so the points are never given: the resume of eight lines with the headings of the
  sections contacts, experience, education and skills scores 85, where the formula of the
  claim gives 100.
\<close>

theorem C4_line_bonus_failing_input:
  "length (str_split 10 structured_resume) = 8
   \<and> sections (parsedResume (analyzeResume toLowerCase_ru structured_resume scenario_vacancy))
     = [ascii ''experience'', ascii ''education'', ascii ''skills'', ascii ''contacts'']
   \<and> length (str_split 10
        (rawText (parsedResume (analyzeResume toLowerCase_ru structured_resume scenario_vacancy))))
     = 1
   \<and> b_structure (breakdown (analyzeResume toLowerCase_ru structured_resume scenario_vacancy)) = 85
   \<and> structure_spec 3 True True = 100"
proof -
  have l: "length (str_split 10 structured_resume) = 8"
    by code_simp
  have s: "detectSections toLowerCase_ru (normalizeText structured_resume)
      = [ascii ''experience'', ascii ''education'', ascii ''skills'', ascii ''contacts'']"
    by code_simp
  have f: "length (filter (\<lambda>s. s \<in> set [ascii ''experience'', ascii ''education'',
      ascii ''skills'', ascii ''contacts'']) expectedSections) = 3"
    "ascii ''contacts'' \<in> set [ascii ''experience'', ascii ''education'',
      ascii ''skills'', ascii ''contacts'']"
    by code_simp+
  have v: "structure_spec 3 True False = 85" "structure_spec 3 True True = 100"
    by code_simp+
  have sec: "sections (parseResume toLowerCase_ru structured_resume)
      = [ascii ''experience'', ascii ''education'', ascii ''skills'', ascii ''contacts'']"
    by (simp only: parseResume_fields s)
  have ln: "(5 < length (str_split 10 (rawText (parseResume toLowerCase_ru structured_resume))))
      = False"
    using line_bonus_never [of toLowerCase_ru structured_resume] by simp
  have "analyzeStructure (parseResume toLowerCase_ru structured_resume) = 85"
    by (simp only: analyzeStructure_spec sec ln f v)
  then show ?thesis
    using l v by (simp add: analyzeResume_fields parseResume_fields s normalizeText_one_line)
qed

section \<open>Key words and recommendations on concrete inputs\<close>

lemma skills_reqs:
  "extractVacancyRequirements toLowerCase_ru skills_vacancy =
     \<lparr>technicalSkills = twelve_skills, req_softSkills = [], req_keywords = []\<rparr>"
  by code_simp



lemma bare_normalized: "normalizeText bare_resume = bare_resume"
  by code_simp


lemma none_of_twelve:
  "filter (\<lambda>q. str_includes (toLowerCase_ru bare_resume) (toLowerCase_ru q)) twelve_skills = []"
  "filter (\<lambda>q. \<not> str_includes (toLowerCase_ru bare_resume) (toLowerCase_ru q)) twelve_skills
     = twelve_skills"
  by code_simp+



lemma skills_lengths: "length twelve_skills = 12" "length forty_skills = 40"
  by (simp_all add: twelve_skills_def forty_skills_def)

lemma descriptions_differ: "keywordsDescription 10 \<noteq> keywordsDescription 12"
  by code_simp

lemma keyword_score_spec_values:
  "keyword_score_spec 7 12 = 58" "keyword_score_spec 23 40 = 58" "Math_round 100 = 100"
  "min (Math_round (fmul (fdiv 0 12) 100)) 100 = 0"
  by code_simp+


lemma skills_nonempty: "twelve_skills \<noteq> []" "forty_skills \<noteq> []"
  by (simp_all add: twelve_skills_def forty_skills_def)



section \<open>Claims on the key word score\<close>

lemma full_match_score:
  assumes "allRequirements requirements \<noteq> []"
    and "length (allRequirements requirements) < 2 ^ 44"
    and "filter (\<lambda>q. \<not> str_includes (lc (rawText resume)) (lc q))
           (allRequirements requirements) = []"
  shows "fst (analyzeKeywords lc resume requirements) = 100"
proof -
  define n where "n = length (allRequirements requirements)"
  have n: "0 < n"
    using assms(1) by (simp add: n_def)
  have "\<forall>q \<in> set (allRequirements requirements). str_includes (lc (rawText resume)) (lc q)"
    using assms(3) by (simp add: filter_empty_conv)
  then have "filter (\<lambda>q. str_includes (lc (rawText resume)) (lc q)) (allRequirements requirements)
      = allRequirements requirements"
    by (simp add: filter_id_conv)
  then have m: "length (fst (snd (analyzeKeywords lc resume requirements))) = n"
    using assms(1) by (simp add: analyzeKeywords_filter n_def)
  have "(200 * n + n) mod (2 * n) = n"
    using n by simp
  then have tie: "(200 * n + n) mod (2 * n) \<noteq> 0"
    using n by simp
  have "of_nat n / of_nat n * (100 :: rat) = 100"
    using n by simp
  then have spec: "keyword_score_spec n n = 100"
    by (simp add: keyword_score_spec_def keyword_score_spec_values)
  show ?thesis
    using keyword_score_exact [OF assms(1,2), of lc resume] tie spec
    unfolding m n_def [symmetric] by simp
qed

lemma low_score_missing:
  assumes "b_keywords (breakdown (analyzeResume lc resumeText vacancyText)) < 70"
  shows "missingKeywords (analyzeResume lc resumeText vacancyText) \<noteq> []"
proof
  let ?resume = "parseResume lc resumeText"
  let ?requirements = "extractVacancyRequirements lc vacancyText"
  assume "missingKeywords (analyzeResume lc resumeText vacancyText) = []"
  then have none: "snd (snd (analyzeKeywords lc ?resume ?requirements)) = []"
    by (simp add: analyzeResume_fields)
  have low: "fst (analyzeKeywords lc ?resume ?requirements) < 70"
    using assms by (simp add: analyzeResume_fields)
  show False
  proof (cases "allRequirements ?requirements = []")
    case True
    then show False
      using low by (simp add: analyzeKeywords_filter)
  next
    case False
    have small: "length (allRequirements ?requirements) < 2 ^ 44"
      using requirements_length [of lc vacancyText] by simp
    have "filter (\<lambda>q. \<not> str_includes (lc (rawText ?resume)) (lc q))
        (allRequirements ?requirements) = []"
      using none False by (simp add: analyzeKeywords_filter)
    then show False
      using full_match_score [OF False small] low by simp
  qed
qed





section \<open>Claims on the recommendations\<close>

text \<open>
  Claim C9.  The reported list of missing key words has at most ten entries: it is the
  first ten of the requirements that the loop of the matcher puts aside.  The
  recommendation of rule 1 is built from that reported list, not from the full one: when
  the key word score is below 70 the reported list is not empty, the first recommendation
  is the critical one of rule 1, and the number in its description is the length of the
  reported list.
\<close>

theorem C9_missing_reported:
  "length (missingKeywords (analyzeResume lc resumeText vacancyText)) \<le> 10
   \<and> missingKeywords (analyzeResume lc resumeText vacancyText) =
       take 10 (snd (partitionRequirements lc
          (lc (rawText (parsedResume (analyzeResume lc resumeText vacancyText))))
          (technicalSkills (extractVacancyRequirements lc vacancyText)
           @ req_softSkills (extractVacancyRequirements lc vacancyText)
           @ req_keywords (extractVacancyRequirements lc vacancyText))))
   \<and> (b_keywords (breakdown (analyzeResume lc resumeText vacancyText)) < 70 \<longrightarrow>
        missingKeywords (analyzeResume lc resumeText vacancyText) \<noteq> []
        \<and> hd (recommendations (analyzeResume lc resumeText vacancyText)) =
            keywordsRecommendation (missingKeywords (analyzeResume lc resumeText vacancyText))
        \<and> rtype (hd (recommendations (analyzeResume lc resumeText vacancyText))) = Critical
        \<and> description (hd (recommendations (analyzeResume lc resumeText vacancyText))) =
            keywordsDescription
              (length (missingKeywords (analyzeResume lc resumeText vacancyText))))"
proof -
  let ?res = "analyzeResume lc resumeText vacancyText"
  have cut: "missingKeywords ?res =
       take 10 (snd (partitionRequirements lc (lc (rawText (parsedResume ?res)))
          (technicalSkills (extractVacancyRequirements lc vacancyText)
           @ req_softSkills (extractVacancyRequirements lc vacancyText)
           @ req_keywords (extractVacancyRequirements lc vacancyText))))"
    by (simp only: analyzeResume_fields(1,8) missing_reported allRequirements_def)
  have len: "length (missingKeywords ?res) \<le> 10"
    by (subst cut) simp
  have rule1: "missingKeywords ?res \<noteq> []
      \<and> hd (recommendations ?res) = keywordsRecommendation (missingKeywords ?res)
      \<and> rtype (hd (recommendations ?res)) = Critical
      \<and> description (hd (recommendations ?res)) =
          keywordsDescription (length (missingKeywords ?res))"
    if low: "b_keywords (breakdown ?res) < 70"
  proof -
    have ne: "missingKeywords ?res \<noteq> []"
      using low by (rule low_score_missing)
    have h: "hd (recommendations ?res) = keywordsRecommendation (missingKeywords ?res)"
      by (simp only: analyzeResume_fields(9) rule1_first [OF low ne])
    show ?thesis
      using ne by (simp add: h keywordsRecommendation_def)
  qed
  show ?thesis
    using cut len rule1 by blast
qed

theorem C9_missing_reported_witness:
  "b_keywords (breakdown (analyzeResume toLowerCase_ru bare_resume skills_vacancy)) = 0
   \<and> missingKeywords (analyzeResume toLowerCase_ru bare_resume skills_vacancy)
     = take 10 twelve_skills
   \<and> hd (recommendations (analyzeResume toLowerCase_ru bare_resume skills_vacancy)) =
       keywordsRecommendation (take 10 twelve_skills)"
proof -
  let ?resume = "parseResume toLowerCase_ru bare_resume"
  let ?requirements = "extractVacancyRequirements toLowerCase_ru skills_vacancy"
  have raw: "rawText ?resume = bare_resume"
    by (simp add: parseResume_fields bare_normalized)
  have all: "allRequirements ?requirements = twelve_skills"
    by (simp add: allRequirements_def skills_reqs)
  have k: "analyzeKeywords toLowerCase_ru ?resume ?requirements =
      (min (Math_round (fmul (fdiv (of_nat 0) (of_nat 12)) 100)) 100, [], take 10 twelve_skills)"
    by (simp only: analyzeKeywords_filter all raw skills_nonempty if_False
        none_of_twelve list.size skills_lengths)
  have s: "b_keywords (breakdown (analyzeResume toLowerCase_ru bare_resume skills_vacancy)) = 0"
    unfolding analyzeResume_fields k using keyword_score_spec_values(4) by simp
  have m: "missingKeywords (analyzeResume toLowerCase_ru bare_resume skills_vacancy)
      = take 10 twelve_skills"
    unfolding analyzeResume_fields k by simp
  show ?thesis
    using C9_missing_reported [of toLowerCase_ru bare_resume skills_vacancy] s m by simp
qed

text \<open>
  The number in the description of rule 1 is not the size of the full missing set: the
  vacancy that names twelve technical skills and the resume "Ivan Ivanov", which has none
  of them, give a full missing set of twelve requirements and the description for ten.
\<close>

theorem C9_count_counterexample:
  "length (snd (partitionRequirements toLowerCase_ru
      (toLowerCase_ru (rawText (parsedResume
         (analyzeResume toLowerCase_ru bare_resume skills_vacancy))))
      (technicalSkills (extractVacancyRequirements toLowerCase_ru skills_vacancy)
       @ req_softSkills (extractVacancyRequirements toLowerCase_ru skills_vacancy)
       @ req_keywords (extractVacancyRequirements toLowerCase_ru skills_vacancy)))) = 12
   \<and> length (missingKeywords (analyzeResume toLowerCase_ru bare_resume skills_vacancy)) = 10
   \<and> rtype (hd (recommendations (analyzeResume toLowerCase_ru bare_resume skills_vacancy)))
     = Critical
   \<and> description (hd (recommendations (analyzeResume toLowerCase_ru bare_resume skills_vacancy)))
     = keywordsDescription 10
   \<and> keywordsDescription 10 \<noteq> keywordsDescription 12"
proof -
  let ?res = "analyzeResume toLowerCase_ru bare_resume skills_vacancy"
  let ?resume = "parseResume toLowerCase_ru bare_resume"
  let ?requirements = "extractVacancyRequirements toLowerCase_ru skills_vacancy"
  have raw: "rawText ?resume = bare_resume"
    by (simp add: parseResume_fields bare_normalized)
  have all: "allRequirements ?requirements = twelve_skills"
    by (simp add: allRequirements_def skills_reqs)
  have k: "analyzeKeywords toLowerCase_ru ?resume ?requirements =
      (min (Math_round (fmul (fdiv (of_nat 0) (of_nat 12)) 100)) 100, [], take 10 twelve_skills)"
    by (simp only: analyzeKeywords_filter all raw skills_nonempty if_False
        none_of_twelve list.size skills_lengths)
  have s: "b_keywords (breakdown ?res) < 70"
    unfolding analyzeResume_fields k using keyword_score_spec_values(4) by simp
  have m: "missingKeywords ?res = take 10 twelve_skills"
    unfolding analyzeResume_fields k by simp
  have ne: "missingKeywords ?res \<noteq> []"
    unfolding m by (simp add: skills_nonempty)
  have "hd (recommendations ?res) = keywordsRecommendation (missingKeywords ?res)"
    by (simp only: analyzeResume_fields(9) rule1_first [OF s ne])
  then have h: "hd (recommendations ?res) = keywordsRecommendation (take 10 twelve_skills)"
    by (simp only: m)
  have full: "length (snd (partitionRequirements toLowerCase_ru
      (toLowerCase_ru (rawText (parsedResume ?res)))
      (technicalSkills ?requirements @ req_softSkills ?requirements
       @ req_keywords ?requirements))) = 12"
    by (simp add: analyzeResume_fields raw skills_reqs partitionRequirements_filter
        none_of_twelve skills_lengths)
  show ?thesis
    using full descriptions_differ
    by (simp add: h m keywordsRecommendation_def skills_lengths)
qed

text \<open>
  Claim C10.  For every pair of inputs the recommendations contain the warning
  "Detal'no opishite opyt raboty" of rule 4, because the experience score is 0 and the
  experience text is empty on every call; so the list is never empty before the last step,
  and the closing recommendation "Otlichnaya rabota!" is in the list for no input.
\<close>

theorem C10_experience_warning_always:
  "describeExperience \<in> set (recommendations (analyzeResume lc resumeText vacancyText))
   \<and> rtype describeExperience = Warning
   \<and> title describeExperience = describeExperienceTitle
   \<and> affirmation \<notin> set (recommendations (analyzeResume lc resumeText vacancyText))
   \<and> affirmationTitle \<notin> title ` set (recommendations (analyzeResume lc resumeText vacancyText))"
proof -
  let ?res = "analyzeResume lc resumeText vacancyText"
  have e: "experience (parseResume lc resumeText) = []"
    by (simp add: parseResume_fields)
  have b: "b_experience (breakdown ?res) < 60"
    by (simp add: analyzeResume_fields analyzeExperience_parsed)
  have w: "describeExperience \<in> set (recommendations ?res)"
    unfolding analyzeResume_fields(9) by (rule rule4_fires(2) [OF e b])
  have t: "affirmationTitle \<notin> title ` set (recommendations ?res)"
    unfolding analyzeResume_fields(9) by (rule rule4_fires(3) [OF e b])
  have a: "affirmation \<notin> set (recommendations ?res)"
  proof
    assume "affirmation \<in> set (recommendations ?res)"
    then have "title affirmation \<in> title ` set (recommendations ?res)"
      by (rule imageI)
    then show False
      using t by (simp add: affirmation_def)
  qed
  show ?thesis
    using w t a by (simp add: describeExperience_def)
qed

theorem C10_experience_warning_always_witness:
  "describeExperience \<in> set (recommendations
      (analyzeResume toLowerCase_ru scenario_resume scenario_vacancy))
   \<and> affirmation \<notin> set (recommendations
      (analyzeResume toLowerCase_ru scenario_resume scenario_vacancy))"
  using C10_experience_warning_always [of toLowerCase_ru scenario_resume scenario_vacancy]
  by simp

end
